theory Spec2Isabelle
  imports Main "HOL-Library.Signed_Division"
begin


section \<open>The OCI block volume provisioner (pkg/provisioner/block/block.go)\<close>

text \<open>
  A shallow embedding of the block provisioner: the pure helpers \<open>roundUpSize\<close>,
  \<open>resolveFSType\<close> and \<open>volumeRoundingEnabled\<close>, the polling loop
  \<open>waitForVolumeAvailable\<close>, and the two operations \<open>Provision\<close> and \<open>Delete\<close>.

  The collaborators of the Go code (the OCI block storage client, the instance metadata
  service, the process environment, the logger, the clock) are made explicit: every
  operation takes a \<open>world\<close> and returns the new one. The world holds a logical clock in
  seconds, the trace of the calls made to the collaborators together with what they
  answered, the log lines written, and the process environment. The wait for the volume
  need not return (the polling library polls for ever under a timeout of zero), so the
  wait and \<open>Provision\<close> give an \<open>option\<close>: \<open>None\<close> is the run that never returns.
  Under a context with a deadline the wait does return, and \<open>Provision\<close> hands it one
  (lemmas \<open>waitForVolumeAvailable_returns\<close> and \<open>Provision_returns\<close>).
\<close>

subsection \<open>64-bit integers\<close>

text \<open>
  Go's \<open>int64\<close> is modelled as \<open>int\<close> with the two's complement wrap-around written out:
  \<open>wrap64\<close> maps a mathematical result to the value the machine stores. Go's \<open>/\<close>
  truncates towards zero, which is \<open>sdiv\<close>; dividing by zero panics.
\<close>

definition wrap64 :: "int \<Rightarrow> int" where
  "wrap64 k = (k + 2 ^ 63) mod 2 ^ 64 - 2 ^ 63"

definition is_int64 :: "int \<Rightarrow> bool" where
  "is_int64 k \<longleftrightarrow> - (2 ^ 63) \<le> k \<and> k < 2 ^ 63"

subsection \<open>Data model\<close>

text \<open>The access modes of a claim (\<open>v1.PersistentVolumeAccessMode\<close>).\<close>

datatype accessMode = ReadWriteOnce | ReadOnlyMany | ReadWriteMany

text \<open>The lifecycle states of a volume (\<open>core.VolumeLifecycleStateEnum\<close>).\<close>

datatype volumeLifecycleState =
    VolumeLifecycleStateProvisioning
  | VolumeLifecycleStateRestoring
  | VolumeLifecycleStateAvailable
  | VolumeLifecycleStateTerminating
  | VolumeLifecycleStateTerminated
  | VolumeLifecycleStateFaulty

text \<open>
  Go's \<open>error\<close> values: the errors the provisioner builds itself, the errors of the
  libraries it calls, and the errors its collaborators may answer with.
\<close>

datatype err =
    ErrInvalidAccessMode accessMode
    \<comment> \<open>"invalid access mode %v specified. Only %v is supported"\<close>
  | ErrNoVolumeSize
    \<comment> \<open>"could not determine volume size for PVC"\<close>
  | ErrLifecycleState volumeLifecycleState
    \<comment> \<open>"volume has lifecycle state %q"\<close>
  | ErrFailedToProvision string err
    \<comment> \<open>"failed to provision volume %q: %v"\<close>
  | ErrNoVolumeIDAnnotation
    \<comment> \<open>"volumeid annotation not found on PV"\<close>
  | ErrWaitTimeout
    \<comment> \<open>\<open>wait.ErrWaitTimeout\<close>\<close>
  | ErrDeadlineExceeded
    \<comment> \<open>\<open>context.DeadlineExceeded\<close>\<close>
  | ErrSyntax string
    \<comment> \<open>\<open>strconv.ParseBool\<close>: invalid syntax\<close>
  | ErrService nat string
    \<comment> \<open>a service error of the provider: HTTP status code and message\<close>
  | ErrOther string
    \<comment> \<open>any other error of a collaborator\<close>
  | PanicDivideByZero
    \<comment> \<open>the run-time panic of an integer division by zero\<close>
  | PanicTickerInterval
    \<comment> \<open>the panic of \<open>time.NewTicker\<close> for an interval that is not positive\<close>

text \<open>
  A \<open>resource.Quantity\<close> is modelled by its number of bytes, an \<open>int64\<close>: \<open>Value\<close> reads
  it and \<open>Cmp\<close> compares two of them (\<open>-1\<close>, \<open>0\<close> or \<open>1\<close>).
\<close>

type_synonym quantity = int

definition Value :: "quantity \<Rightarrow> int" where
  "Value q = q"

definition Cmp :: "quantity \<Rightarrow> quantity \<Rightarrow> int" where
  "Cmp q y = (if q < y then - 1 else if q = y then 0 else 1)"

record persistentVolumeClaim =
  pvc_Name :: string
  pvc_Annotations :: "string \<rightharpoonup> string"
  pvc_AccessModes :: "accessMode list"
  pvc_Requests :: "string \<rightharpoonup> quantity"

record volumeOptions =
  PersistentVolumeReclaimPolicy :: string
  PVC :: persistentVolumeClaim
  Parameters :: "string \<rightharpoonup> string"
  MountOptions :: "string list"

record availabilityDomain =
  ad_Name :: string

record persistentVolume =
  pv_Name :: string
  pv_Annotations :: "string \<rightharpoonup> string"
  pv_Labels :: "string \<rightharpoonup> string"
  pv_PersistentVolumeReclaimPolicy :: string
  pv_AccessModes :: "accessMode list"
  pv_Capacity :: "string \<rightharpoonup> quantity"
  pv_FlexVolume_Driver :: string
  pv_FlexVolume_FSType :: string
  pv_MountOptions :: "string list"

record createVolumeDetails =
  AvailabilityDomain :: string
  CompartmentId :: string
  DisplayName :: string
  SizeInMBs :: int
  SourceDetails :: "string option"

record volume =
  volume_Id :: string

text \<open>
  The response to a delete request: \<open>RawResponse\<close> is the status code of the HTTP
  response, \<open>None\<close> when the Go pointer is nil.
\<close>

record deleteVolumeResponse =
  RawResponse :: "nat option"

record instanceMetadata =
  Region :: string

subsection \<open>Constants\<close>

definition OCIVolumeID :: string where
  "OCIVolumeID = ''ociVolumeID''"

definition OCIVolumeBackupID :: string where
  "OCIVolumeBackupID = ''volume.beta.kubernetes.io/oci-volume-source''"

definition FSType :: string where
  "FSType = ''fsType''"

definition volumeRoundingUpEnabled :: string where
  "volumeRoundingUpEnabled = ''volumeRoundingUpEnabled''"

definition ResourceStorage :: string where
  "ResourceStorage = ''storage''"

definition StatusNotFound :: nat where
  "StatusNotFound = 404"

text \<open>The warning that \<open>Provision\<close> logs when it raises a size to the minimum.\<close>

definition roundingMessage :: string where
  "roundingMessage = ''Attempted to provision volume with a capacity less than the minimum. Rounding up to ensure volume creation.''"

subsection \<open>Pure helpers\<close>

text \<open>\<open>strconv.ParseBool\<close> of Go's standard library.\<close>

definition ParseBool :: "string \<Rightarrow> err + bool" where
  "ParseBool str =
     (if str \<in> set [''1'', ''t'', ''T'', ''true'', ''TRUE'', ''True''] then Inr True
      else if str \<in> set [''0'', ''f'', ''F'', ''false'', ''FALSE'', ''False''] then Inr False
      else Inl (ErrSyntax str))"

definition resolveFSType :: "volumeOptions \<Rightarrow> string" where
  "resolveFSType options =
     (case Parameters options FSType of
        Some fsType \<Rightarrow> fsType
      | None \<Rightarrow> ''ext4'')"

text \<open>
  \<open>roundUpSize\<close> (lines 99 to 101):
  \<open>(volumeSizeBytes + allocationUnitBytes - 1) / allocationUnitBytes\<close> on \<open>int64\<close>. Each
  operation wraps; a zero divisor panics, which is the result \<open>None\<close>.
\<close>

definition roundUpSize :: "int \<Rightarrow> int \<Rightarrow> int option" where
  "roundUpSize volumeSizeBytes allocationUnitBytes =
     (if allocationUnitBytes = 0 then None
      else Some (wrap64
        (wrap64 (wrap64 (volumeSizeBytes + allocationUnitBytes) - 1) sdiv allocationUnitBytes)))"

text \<open>\<open>volumeRoundingEnabled\<close> (lines 135 to 143): true unless the parameter says false.\<close>

definition volumeRoundingEnabled :: "(string \<rightharpoonup> string) \<Rightarrow> bool" where
  "volumeRoundingEnabled param =
     (case param volumeRoundingUpEnabled of
        None \<Rightarrow> True
      | Some volumeRoundingUpParam \<Rightarrow>
          (case ParseBool volumeRoundingUpParam of
             Inr enabled \<Rightarrow> (if \<not> enabled then False else True)
           | Inl e \<Rightarrow> True))"

subsection \<open>The world: clock, calls, log, environment\<close>

datatype level = Info | Warn

text \<open>
  One event per call to a collaborator, with the request and the answer the caller saw.
\<close>

datatype event =
    EvCreateVolume createVolumeDetails "err + volume"
  | EvGetVolume string "err + volumeLifecycleState"
  | EvDeleteVolume string deleteVolumeResponse "err option"
  | EvMetadataGet "err + instanceMetadata"

record world =
  now :: nat
  calls :: "event list"
  logs :: "(level \<times> string) list"
  environ :: "string \<rightharpoonup> string"

definition logInfo :: "string \<Rightarrow> world \<Rightarrow> world" where
  "logInfo msg w = w\<lparr>logs := logs w @ [(Info, msg)]\<rparr>"

definition logWarn :: "string \<Rightarrow> world \<Rightarrow> world" where
  "logWarn msg w = w\<lparr>logs := logs w @ [(Warn, msg)]\<rparr>"

text \<open>\<open>os.LookupEnv\<close>.\<close>

definition LookupEnv :: "string \<Rightarrow> world \<Rightarrow> string option" where
  "LookupEnv key w = environ w key"

subsection \<open>Contexts and deadlines\<close>

text \<open>
  A \<open>context.Context\<close> is its deadline on the clock, \<open>None\<close> for
  \<open>context.Background()\<close>. \<open>context.WithTimeout(parent, d)\<close> is
  \<open>WithDeadline(parent, now + d)\<close>, and a child never outlives its parent: its deadline
  is the earlier of the two.
\<close>

type_synonym Context = "nat option"

definition Background :: Context where
  "Background = None"

definition WithTimeout :: "Context \<Rightarrow> nat \<Rightarrow> world \<Rightarrow> Context" where
  "WithTimeout parent timeout w =
     (case parent of
        None \<Rightarrow> Some (now w + timeout)
      | Some d \<Rightarrow> Some (min d (now w + timeout)))"

text \<open>
  A call under a context whose answer takes \<open>latency\<close> seconds: the answer is seen when
  it arrives before the deadline; otherwise the call ends at the deadline (at once when the
  deadline has passed already) with \<open>context.DeadlineExceeded\<close>.
\<close>

definition in_time :: "Context \<Rightarrow> world \<Rightarrow> nat \<Rightarrow> bool" where
  "in_time ctx w latency = (case ctx of None \<Rightarrow> True | Some d \<Rightarrow> now w + latency < d)"

definition return_time :: "Context \<Rightarrow> world \<Rightarrow> nat \<Rightarrow> nat" where
  "return_time ctx w latency =
     (case ctx of
        None \<Rightarrow> now w + latency
      | Some d \<Rightarrow> if now w + latency < d then now w + latency else max (now w) d)"

subsection \<open>The collaborators\<close>

text \<open>
  The provisioner client (\<open>client.ProvisionerClient\<close>): its per-call timeout, the
  compartment, and the provider behind \<open>BlockStorage()\<close>. The provider is a parameter: for
  every request it gives, from the world at the time of the call, how long the answer takes
  and what it is.
\<close>

record provisionerClient =
  Timeout :: nat
  CompartmentOCID :: string
  createVolume_reply :: "world \<Rightarrow> createVolumeDetails \<Rightarrow> nat \<times> (err + volume)"
  getVolume_reply :: "world \<Rightarrow> string \<Rightarrow> nat \<times> (err + volumeLifecycleState)"
  deleteVolume_reply :: "world \<Rightarrow> string \<Rightarrow> nat \<times> deleteVolumeResponse \<times> err option"

definition CreateVolume ::
  "provisionerClient \<Rightarrow> Context \<Rightarrow> createVolumeDetails \<Rightarrow> world \<Rightarrow> (err + volume) \<times> world" where
  "CreateVolume c ctx details w =
     (let (latency, answer) = createVolume_reply c w details;
          r = (if in_time ctx w latency then answer else Inl ErrDeadlineExceeded)
      in (r, w\<lparr>now := return_time ctx w latency,
                calls := calls w @ [EvCreateVolume details r]\<rparr>))"

definition GetVolume ::
  "provisionerClient \<Rightarrow> Context \<Rightarrow> string \<Rightarrow> world \<Rightarrow> (err + volumeLifecycleState) \<times> world" where
  "GetVolume c ctx volumeId w =
     (let (latency, answer) = getVolume_reply c w volumeId;
          r = (if in_time ctx w latency then answer else Inl ErrDeadlineExceeded)
      in (r, w\<lparr>now := return_time ctx w latency,
                calls := calls w @ [EvGetVolume volumeId r]\<rparr>))"

definition DeleteVolume ::
  "provisionerClient \<Rightarrow> Context \<Rightarrow> string \<Rightarrow> world
     \<Rightarrow> (deleteVolumeResponse \<times> err option) \<times> world" where
  "DeleteVolume c ctx volumeId w =
     (let (latency, answer) = deleteVolume_reply c w volumeId;
          r = (if in_time ctx w latency then answer
               else (\<lparr>RawResponse = None\<rparr>, Some ErrDeadlineExceeded))
      in (r, w\<lparr>now := return_time ctx w latency,
                calls := calls w @ [EvDeleteVolume volumeId (fst r) (snd r)]\<rparr>))"

text \<open>
  The block provisioner. \<open>block_metadata\<close> is the instance metadata service behind
  \<open>metadata.Get()\<close>, a parameter like the provider.
\<close>

record blockProvisioner =
  block_client :: provisionerClient
  block_metadata :: "world \<Rightarrow> nat \<times> (err + instanceMetadata)"
  block_volumeRoundingEnabled :: bool
  block_minVolumeSize :: quantity
  block_timeout :: nat

definition metadata_Get :: "blockProvisioner \<Rightarrow> world \<Rightarrow> (err + instanceMetadata) \<times> world" where
  "metadata_Get block w =
     (let (latency, answer) = block_metadata block w
      in (answer, w\<lparr>now := now w + latency, calls := calls w @ [EvMetadataGet answer]\<rparr>))"

text \<open>
  What the packages \<open>pkg/provisioner\<close> and \<open>pkg/provisioner/plugin\<close> export and block.go
  uses: the function \<open>GetPrefix\<close>, the classification \<open>IsNotFound\<close> of an error, and three
  string constants. Their definitions are not in the files at hand, so they are parameters.
\<close>

record provisionerPkg =
  GetPrefix :: string
  IsNotFound :: "err option \<Rightarrow> bool"
  LabelZoneRegion :: string
  LabelZoneFailureDomain :: string
  OCIProvisionerName :: string

subsection \<open>Waiting for the volume\<close>

text \<open>
  \<open>wait.PollImmediate(interval, timeout, condition)\<close> of the Kubernetes library
  (\<open>k8s.io/apimachinery/pkg/util/wait\<close>), which block.go calls with an interval of five
  seconds. The library is not part of the repository; this is its loop, on the logical
  clock.

  \<open>PollImmediate\<close> evaluates the condition at once; an error or \<open>true\<close> ends it. Otherwise
  it starts the poller: a ticker that ticks every \<open>interval\<close> from that moment on, and,
  unless the timeout is zero, a timer that fires \<open>timeout\<close> later and closes the channel
  of the poller. A timeout of zero means no timer: the loop polls for ever. \<open>WaitFor\<close> is
  the consumer: it waits for the channel, evaluates the condition, returns on an error or on
  \<open>true\<close>, and gives up with \<open>ErrWaitTimeout\<close> when the channel was closed, so the
  condition is evaluated once more after the timer has fired.

  A tick that comes while the condition is being evaluated is dropped: \<open>nextTick\<close> is
  the first tick after the one last taken (\<open>prev\<close>) that is not before the moment the
  consumer is ready. When the timer fires no later than this tick, the consumer is woken
  by the closed channel, at the time of the timer or, if it was busy then, as soon as it is
  ready. Where a tick and the timer fall on the same second, the timer is taken.
\<close>

definition sleepUntil :: "nat \<Rightarrow> world \<Rightarrow> world" where
  "sleepUntil t w = w\<lparr>now := max (now w) t\<rparr>"

definition nextTick :: "nat \<Rightarrow> nat \<Rightarrow> nat \<Rightarrow> nat" where
  "nextTick interval prev ready =
     prev + interval * max 1 ((ready - prev + interval - 1) div interval)"

text \<open>The channel is closed at the next tick: the timer \<open>stop\<close> has fired by then.\<close>

definition closedAt :: "nat option \<Rightarrow> nat \<Rightarrow> bool" where
  "closedAt stop tick = (case stop of None \<Rightarrow> False | Some t \<Rightarrow> t \<le> tick)"

definition wakeTime :: "nat option \<Rightarrow> nat \<Rightarrow> nat" where
  "wakeTime stop tick = (case stop of None \<Rightarrow> tick | Some t \<Rightarrow> min t tick)"

partial_function (option) WaitFor ::
  "nat \<Rightarrow> nat option \<Rightarrow> (world \<Rightarrow> (err + bool) \<times> world) \<Rightarrow> nat \<Rightarrow> world
     \<Rightarrow> (err option \<times> world) option" where
  "WaitFor interval stop condition prev w =
     (let tick = nextTick interval prev (now w)
      in case condition (sleepUntil (wakeTime stop tick) w) of
           (Inl err, w') \<Rightarrow> Some (Some err, w')
         | (Inr ok, w') \<Rightarrow>
             if ok then Some (None, w')
             else if closedAt stop tick then Some (Some ErrWaitTimeout, w')
             else WaitFor interval stop condition tick w')"

declare WaitFor.simps [code]

definition PollImmediate ::
  "nat \<Rightarrow> nat \<Rightarrow> (world \<Rightarrow> (err + bool) \<times> world) \<Rightarrow> world
     \<Rightarrow> (err option \<times> world) option" where
  "PollImmediate interval timeout condition w =
     (case condition w of
        (Inl err, w') \<Rightarrow> Some (Some err, w')
      | (Inr ok, w') \<Rightarrow>
          if ok then Some (None, w')
          else if interval = 0 then Some (Some PanicTickerInterval, w')
          else WaitFor interval (if timeout = 0 then None else Some (now w' + timeout))
                 condition (now w') w')"

text \<open>
  The closure \<open>isVolumeReady\<close> of \<open>waitForVolumeAvailable\<close> (block.go, lines 104 to 123):
  one status query, under a deadline derived from the context that
  \<open>waitForVolumeAvailable\<close> was given.
\<close>

definition isVolumeReady ::
  "blockProvisioner \<Rightarrow> Context \<Rightarrow> string \<Rightarrow> world \<Rightarrow> (err + bool) \<times> world" where
  "isVolumeReady block ctx volumeID w =
     (let ctx' = WithTimeout ctx (Timeout (block_client block)) w
      in case GetVolume (block_client block) ctx' volumeID w of
           (Inl err, w') \<Rightarrow> (Inl err, w')
         | (Inr state, w') \<Rightarrow>
             (case state of
                VolumeLifecycleStateAvailable \<Rightarrow> (Inr True, w')
              | VolumeLifecycleStateFaulty \<Rightarrow> (Inl (ErrLifecycleState state), w')
              | VolumeLifecycleStateTerminated \<Rightarrow> (Inl (ErrLifecycleState state), w')
              | VolumeLifecycleStateTerminating \<Rightarrow> (Inl (ErrLifecycleState state), w')
              | _ \<Rightarrow> (Inr False, w')))"

text \<open>
  The function that \<open>waitForVolumeAvailable\<close> hands to \<open>PollImmediate\<close> (lines 125 to 131),
  and \<open>waitForVolumeAvailable\<close> itself.
\<close>

definition pollCondition ::
  "blockProvisioner \<Rightarrow> Context \<Rightarrow> string \<Rightarrow> world \<Rightarrow> (err + bool) \<times> world" where
  "pollCondition block ctx volumeID w =
     (case isVolumeReady block ctx volumeID w of
        (Inl err, w') \<Rightarrow> (Inl (ErrFailedToProvision volumeID err), w')
      | (Inr ready, w') \<Rightarrow> (Inr ready, w'))"

definition waitForVolumeAvailable ::
  "blockProvisioner \<Rightarrow> Context \<Rightarrow> string \<Rightarrow> nat \<Rightarrow> world
     \<Rightarrow> (err option \<times> world) option" where
  "waitForVolumeAvailable block ctx volumeID timeout w =
     PollImmediate 5 timeout (pollCondition block ctx volumeID) w"

subsection \<open>Provision\<close>

text \<open>
  \<open>Provision\<close> (block.go, lines 146 to 250) is modelled in three parts. The first part,
  \<open>Provision_request\<close>, is the code up to the request that will be sent (lines 148 to 187):
  the loop over the access modes returns at the first mode that is not \<open>ReadWriteOnce\<close>, the
  capacity is read, the size is computed and raised to the minimum where rounding is on,
  and the details of the volume are filled in. It gives the details and the capacity that
  the persistent volume will report.
\<close>

definition Provision_request ::
  "provisionerPkg \<Rightarrow> blockProvisioner \<Rightarrow> volumeOptions \<Rightarrow> availabilityDomain \<Rightarrow> world
     \<Rightarrow> (err + createVolumeDetails \<times> quantity) \<times> world" where
  "Provision_request P block options ad w =
     (case find (\<lambda>accessMode. accessMode \<noteq> ReadWriteOnce) (pvc_AccessModes (PVC options)) of
        Some accessMode \<Rightarrow> (Inl (ErrInvalidAccessMode accessMode), w)
      | None \<Rightarrow>
     (case pvc_Requests (PVC options) ResourceStorage of
        None \<Rightarrow> (Inl ErrNoVolumeSize, w)
      | Some capacity \<Rightarrow>
     (case roundUpSize (Value capacity) (1024 * 1024) of
        None \<Rightarrow> (Inl PanicDivideByZero, w)
      | Some volSizeMB \<Rightarrow>
     (let w1 = logInfo ''Provisioning volume'' w
      in case
           (if volumeRoundingEnabled (Parameters options) then
              if block_volumeRoundingEnabled block \<and> Cmp (block_minVolumeSize block) capacity = 1 then
                (case roundUpSize (Value (block_minVolumeSize block)) (1024 * 1024) of
                   None \<Rightarrow> (Inl PanicDivideByZero, w1)
                 | Some roundedVolumeSize \<Rightarrow>
                     (Inr (roundedVolumeSize, block_minVolumeSize block),
                      logWarn roundingMessage w1))
              else (Inr (volSizeMB, capacity), w1)
            else (Inr (volSizeMB, capacity), w1))
         of
           (Inl err, w2) \<Rightarrow> (Inl err, w2)
         | (Inr (volSizeMB, capacity), w2) \<Rightarrow>
             (let volumeDetails =
                    \<lparr>AvailabilityDomain = ad_Name ad,
                     CompartmentId = CompartmentOCID (block_client block),
                     DisplayName = GetPrefix P @ pvc_Name (PVC options),
                     SizeInMBs = volSizeMB,
                     SourceDetails = None\<rparr>
              in case pvc_Annotations (PVC options) OCIVolumeBackupID of
                   Some v \<Rightarrow>
                     (Inr (volumeDetails\<lparr>SourceDetails := Some v\<rparr>, capacity),
                      logInfo ''Creating volume from backup.'' w2)
                 | None \<Rightarrow> (Inr (volumeDetails, capacity), w2))))))"

text \<open>The persistent volume that a successful \<open>Provision\<close> returns (lines 222 to 247).\<close>

definition Provision_pv ::
  "provisionerPkg \<Rightarrow> volumeOptions \<Rightarrow> availabilityDomain \<Rightarrow> quantity \<Rightarrow> volume \<Rightarrow> string
     \<Rightarrow> string \<Rightarrow> persistentVolume" where
  "Provision_pv P options ad capacity newVolume filesystemType region =
     \<lparr>pv_Name = volume_Id newVolume,
      pv_Annotations = [OCIVolumeID \<mapsto> volume_Id newVolume],
      pv_Labels = [LabelZoneRegion P \<mapsto> region, LabelZoneFailureDomain P \<mapsto> ad_Name ad],
      pv_PersistentVolumeReclaimPolicy = PersistentVolumeReclaimPolicy options,
      pv_AccessModes = pvc_AccessModes (PVC options),
      pv_Capacity = [ResourceStorage \<mapsto> capacity],
      pv_FlexVolume_Driver = OCIProvisionerName P,
      pv_FlexVolume_FSType = filesystemType,
      pv_MountOptions = MountOptions options\<rparr>"

text \<open>
  \<open>Provision\<close> as a whole: the request, the create call (lines 189 to 197), the wait and
  the delete call after a failed wait (lines 198 to 209), the region (lines 211 to 220)
  and the persistent volume. In line 189 the variable \<open>ctx\<close> is assigned the context made
  for the create call, with the client's timeout; this is the context that line 199 hands
  on to \<open>waitForVolumeAvailable\<close> and from which line 202 derives the context of the delete
  call. A wait that never returns is a \<open>Provision\<close> that never returns.
\<close>

definition Provision ::
  "provisionerPkg \<Rightarrow> blockProvisioner \<Rightarrow> volumeOptions \<Rightarrow> availabilityDomain \<Rightarrow> world
     \<Rightarrow> ((err + persistentVolume) \<times> world) option" where
  "Provision P block options ad w =
     (case Provision_request P block options ad w of
        (Inl err, w1) \<Rightarrow> Some (Inl err, w1)
      | (Inr (volumeDetails, capacity), w1) \<Rightarrow>
     (let ctx = WithTimeout Background (Timeout (block_client block)) w1
      in case CreateVolume (block_client block) ctx volumeDetails w1 of
           (Inl err, w2) \<Rightarrow> Some (Inl err, w2)
         | (Inr newVolume, w2) \<Rightarrow>
     (case waitForVolumeAvailable block ctx (volume_Id newVolume) (block_timeout block)
             (logInfo ''Waiting for volume to become available.'' w2) of
        None \<Rightarrow> None
      | Some (Some err, w3) \<Rightarrow>
          (let ctx' = WithTimeout ctx (Timeout (block_client block)) w3;
               (_, w4) = DeleteVolume (block_client block) ctx' (volume_Id newVolume) w3
           in Some (Inl err, w4))
      | Some (None, w3) \<Rightarrow>
     (let filesystemType = resolveFSType options
      in case (case LookupEnv ''OCI_SHORT_REGION'' w3 of
                 Some region \<Rightarrow> (Inr region, w3)
               | None \<Rightarrow>
                   (case metadata_Get block w3 of
                      (Inl err, w4) \<Rightarrow> (Inl err, w4)
                    | (Inr metadata, w4) \<Rightarrow> (Inr (Region metadata), w4)))
         of
           (Inl err, w4) \<Rightarrow> Some (Inl err, w4)
         | (Inr region, w4) \<Rightarrow>
             Some (Inr (Provision_pv P options ad capacity newVolume filesystemType region),
                   w4)))))"

subsection \<open>Delete\<close>

text \<open>\<open>Delete\<close> (block.go, lines 253 to 280).\<close>

definition Delete ::
  "provisionerPkg \<Rightarrow> blockProvisioner \<Rightarrow> persistentVolume \<Rightarrow> world \<Rightarrow> err option \<times> world" where
  "Delete P block volume w =
     (case pv_Annotations volume OCIVolumeID of
        None \<Rightarrow> (Some ErrNoVolumeIDAnnotation, w)
      | Some volID \<Rightarrow>
     (let w1 = logInfo ''Deleting volume'' w;
          ctx = WithTimeout Background (Timeout (block_client block)) w1
      in case DeleteVolume (block_client block) ctx volID w1 of
           ((response, err), w2) \<Rightarrow>
             if RawResponse response \<noteq> None \<and> RawResponse response = Some StatusNotFound
             then (None, w2)
             else if IsNotFound P err
             then (None, logInfo ''VolumeID was not found. Unable to delete it.'' w2)
             else (err, w2)))"

section \<open>Notions used in the statements\<close>

text \<open>
  The calls made, and the log lines written, between an earlier world and a later one.
\<close>

definition issued :: "world \<Rightarrow> world \<Rightarrow> event list" where
  "issued w w' = drop (length (calls w)) (calls w')"

definition written :: "world \<Rightarrow> world \<Rightarrow> (level \<times> string) list" where
  "written w w' = drop (length (logs w)) (logs w')"

fun is_create :: "event \<Rightarrow> bool" where
  "is_create (EvCreateVolume details r) = True"
| "is_create _ = False"

fun is_get :: "event \<Rightarrow> bool" where
  "is_get (EvGetVolume volumeId r) = True"
| "is_get _ = False"

fun is_delete :: "event \<Rightarrow> bool" where
  "is_delete (EvDeleteVolume volumeId response err) = True"
| "is_delete _ = False"

definition is_warning :: "level \<times> string \<Rightarrow> bool" where
  "is_warning l \<longleftrightarrow> fst l = Warn"

text \<open>A list of status queries, all for one volume.\<close>

definition gets_of :: "string \<Rightarrow> event list \<Rightarrow> bool" where
  "gets_of volumeID evs \<longleftrightarrow> (\<forall>e \<in> set evs. \<exists>r. e = EvGetVolume volumeID r)"

text \<open>
  What a wait that returns has done: status queries for the volume, and nothing else; after
  a success the last of them reported the state available.
\<close>

definition polled :: "string \<Rightarrow> world \<Rightarrow> err option \<times> world \<Rightarrow> bool" where
  "polled volumeID w y \<longleftrightarrow>
     (\<exists>evs. calls (snd y) = calls w @ evs \<and> gets_of volumeID evs \<and> evs \<noteq> [] \<and>
        (fst y = None \<longrightarrow>
           last evs = EvGetVolume volumeID (Inr VolumeLifecycleStateAvailable)) \<and>
        logs (snd y) = logs w \<and> environ (snd y) = environ w)"

text \<open>One status query, by what the provider answered.\<close>

definition classify :: "err + volumeLifecycleState \<Rightarrow> err + bool" where
  "classify r =
     (case r of
        Inl e \<Rightarrow> Inl e
      | Inr state \<Rightarrow>
          if state = VolumeLifecycleStateAvailable then Inr True
          else if state \<in> {VolumeLifecycleStateFaulty, VolumeLifecycleStateTerminated,
                           VolumeLifecycleStateTerminating}
          then Inl (ErrLifecycleState state)
          else Inr False)"

text \<open>
  The deadline that \<open>Provision\<close> makes for the create call, and the log line it writes
  before it waits.
\<close>

abbreviation createCtx :: "blockProvisioner \<Rightarrow> world \<Rightarrow> Context" where
  "createCtx block w \<equiv> WithTimeout Background (Timeout (block_client block)) w"

abbreviation waiting :: "world \<Rightarrow> world" where
  "waiting w \<equiv> logInfo ''Waiting for volume to become available.'' w"

text \<open>The same provisioner over a provider that answers delete requests by \<open>d\<close>.\<close>

abbreviation deleting ::
  "(world \<Rightarrow> string \<Rightarrow> nat \<times> deleteVolumeResponse \<times> err option) \<Rightarrow> blockProvisioner
     \<Rightarrow> blockProvisioner" where
  "deleting d block \<equiv> block\<lparr>block_client := (block_client block)\<lparr>deleteVolume_reply := d\<rparr>\<rparr>"

text \<open>
  The rule of the minimum size in the words of the specification: a requested capacity
  below the minimum is replaced by the minimum when rounding is on for the provisioner and
  for the request, and is kept otherwise.
\<close>

definition roundsUp :: "blockProvisioner \<Rightarrow> volumeOptions \<Rightarrow> quantity \<Rightarrow> bool" where
  "roundsUp block options requested \<longleftrightarrow>
     volumeRoundingEnabled (Parameters options) \<and> block_volumeRoundingEnabled block \<and>
     requested < block_minVolumeSize block"

definition effectiveCapacity :: "blockProvisioner \<Rightarrow> volumeOptions \<Rightarrow> quantity \<Rightarrow> quantity" where
  "effectiveCapacity block options requested =
     (if roundsUp block options requested then block_minVolumeSize block else requested)"

text \<open>
  A run from \<open>w\<close> to \<open>w'\<close> with result \<open>res\<close> has worked with the capacity
  \<open>effective\<close>: the first call is the one create request of the run, for this capacity in
  MiB, and a persistent volume, if one is returned, reports it.
\<close>

definition createdWith :: "world \<Rightarrow> world \<Rightarrow> err + persistentVolume \<Rightarrow> quantity \<Rightarrow> bool" where
  "createdWith w w' res effective \<longleftrightarrow>
     (\<exists>volumeDetails r rest.
        issued w w' = EvCreateVolume volumeDetails r # rest \<and> filter is_create rest = [] \<and>
        roundUpSize (Value effective) (1024 * 1024) = Some (SizeInMBs volumeDetails)) \<and>
     (\<forall>pv. res = Inr pv \<longrightarrow> pv_Capacity pv ResourceStorage = Some effective)"

section \<open>A scripted provider\<close>

text \<open>
  Concrete collaborators, on which the theorems are run: a provider that creates the volume
  in one second and answers every status query in one second with a state of the caller's
  choice, an instance metadata service, and a claim of 40 GiB against a minimum of 50 GiB.
\<close>

definition demoPkg :: provisionerPkg where
  "demoPkg =
     \<lparr>GetPrefix = ''kube-'',
      IsNotFound = (\<lambda>e. case e of Some (ErrService code msg) \<Rightarrow> code = 404 | _ \<Rightarrow> False),
      LabelZoneRegion = ''failure-domain.beta.kubernetes.io/region'',
      LabelZoneFailureDomain = ''failure-domain.beta.kubernetes.io/zone'',
      OCIProvisionerName = ''oracle/oci''\<rparr>"

definition demoClient ::
  "nat \<Rightarrow> (world \<Rightarrow> err + volumeLifecycleState) \<Rightarrow> deleteVolumeResponse \<times> err option
     \<Rightarrow> provisionerClient" where
  "demoClient t states deleted =
     \<lparr>Timeout = t,
      CompartmentOCID = ''ocid1.compartment.oc1..c'',
      createVolume_reply = (\<lambda>w details. (1, Inr \<lparr>volume_Id = ''ocid1.volume.oc1.phx.v''\<rparr>)),
      getVolume_reply = (\<lambda>w volumeId. (1, states w)),
      deleteVolume_reply = (\<lambda>w volumeId. (1, deleted))\<rparr>"

definition demoBlock :: "provisionerClient \<Rightarrow> blockProvisioner" where
  "demoBlock c =
     \<lparr>block_client = c,
      block_metadata = (\<lambda>w. (1, Inr \<lparr>Region = ''phx''\<rparr>)),
      block_volumeRoundingEnabled = True,
      block_minVolumeSize = 53687091200,
      block_timeout = 60\<rparr>"

definition demoOptions :: "accessMode list \<Rightarrow> quantity \<Rightarrow> volumeOptions" where
  "demoOptions modes capacity =
     \<lparr>PersistentVolumeReclaimPolicy = ''Delete'',
      PVC = \<lparr>pvc_Name = ''claim'', pvc_Annotations = Map.empty, pvc_AccessModes = modes,
             pvc_Requests = [ResourceStorage \<mapsto> capacity]\<rparr>,
      Parameters = Map.empty,
      MountOptions = []\<rparr>"

definition demoAd :: availabilityDomain where
  "demoAd = \<lparr>ad_Name = ''PHX-AD-1''\<rparr>"

definition demoWorld :: world where
  "demoWorld = \<lparr>now = 0, calls = [], logs = [], environ = Map.empty\<rparr>"

definition alwaysProvisioning :: "world \<Rightarrow> err + volumeLifecycleState" where
  "alwaysProvisioning w = Inr VolumeLifecycleStateProvisioning"

definition availableAfter :: "nat \<Rightarrow> world \<Rightarrow> err + volumeLifecycleState" where
  "availableAfter t w = Inr (if now w < t then VolumeLifecycleStateProvisioning else VolumeLifecycleStateAvailable)"

definition deletedOk :: "deleteVolumeResponse \<times> err option" where
  "deletedOk = (\<lparr>RawResponse = Some 204\<rparr>, None)"

definition alwaysFaulty :: "world \<Rightarrow> err + volumeLifecycleState" where
  "alwaysFaulty w = Inr VolumeLifecycleStateFaulty"

definition deleteFails :: "world \<Rightarrow> string \<Rightarrow> nat \<times> deleteVolumeResponse \<times> err option" where
  "deleteFails w volumeId = (1, \<lparr>RawResponse = Some 500\<rparr>, Some (ErrService 500 ''InternalServerError''))"

definition metadataFails :: "world \<Rightarrow> nat \<times> (err + instanceMetadata)" where
  "metadataFails w = (1, Inl (ErrOther ''metadata service unavailable''))"

text \<open>
  A provider that takes four seconds to answer a status query, under a provisioner
  timeout of twelve seconds.
\<close>

definition slowClient :: "(world \<Rightarrow> err + volumeLifecycleState) \<Rightarrow> provisionerClient" where
  "slowClient states =
     (demoClient 100 states deletedOk)\<lparr>getVolume_reply := (\<lambda>w volumeId. (4, states w))\<rparr>"

definition slowBlock :: "(world \<Rightarrow> err + volumeLifecycleState) \<Rightarrow> blockProvisioner" where
  "slowBlock states = (demoBlock (slowClient states))\<lparr>block_timeout := 12\<rparr>"

definition demoVolume :: volume where
  "demoVolume = \<lparr>volume_Id = ''ocid1.volume.oc1.phx.v''\<rparr>"

definition demoDetails :: "int \<Rightarrow> createVolumeDetails" where
  "demoDetails sizeInMBs =
     \<lparr>AvailabilityDomain = ''PHX-AD-1'', CompartmentId = ''ocid1.compartment.oc1..c'',
      DisplayName = ''kube-claim'', SizeInMBs = sizeInMBs, SourceDetails = None\<rparr>"

definition demoPv :: "(string \<rightharpoonup> string) \<Rightarrow> persistentVolume" where
  "demoPv annotations =
     (Provision_pv demoPkg (demoOptions [ReadWriteOnce] 42949672960) demoAd 42949672960
        demoVolume ''ext4'' ''phx'')\<lparr>pv_Annotations := annotations\<rparr>"

section \<open>Properties\<close>

subsection \<open>Arithmetic of the sizes\<close>

lemma wrap64_id: "is_int64 k \<Longrightarrow> wrap64 k = k"
  by (simp add: wrap64_def is_int64_def)

lemma wrap64_minus_one: "wrap64 (wrap64 k - 1) = wrap64 (k - 1)"
proof -
  have "(((k + 2 ^ 63) mod 2 ^ 64 - 2 ^ 63) - 1 + 2 ^ 63) mod (2 ^ 64 :: int)
        = ((k + 2 ^ 63) mod 2 ^ 64 - 1) mod 2 ^ 64"
    by simp
  also have "\<dots> = (k + 2 ^ 63 - 1) mod 2 ^ 64"
    by (rule mod_diff_left_eq)
  finally show ?thesis
    by (simp add: wrap64_def algebra_simps)
qed

lemma roundUpSize_exact:
  assumes "0 \<le> C" "0 < U" "C + U - 1 < 2 ^ 63"
  shows "roundUpSize C U = Some ((C + U - 1) div U)"
proof -
  have r: "is_int64 (C + U - 1)"
    using assms by (simp add: is_int64_def)
  have nn: "0 \<le> C + U - 1" using assms by simp
  have q: "(C + U - 1) sdiv U = (C + U - 1) div U"
    using assms nn by (simp add: signed_divide_int_def sgn_if)
  have "0 \<le> (C + U - 1) div U"
    using nn assms by (simp add: pos_imp_zdiv_nonneg_iff)
  moreover have "(C + U - 1) div U \<le> C + U - 1"
    using zdiv_mono2 [of "C + U - 1" 1 U] nn assms by simp
  ultimately have r2: "is_int64 ((C + U - 1) div U)"
    using r by (simp add: is_int64_def)
  have "wrap64 (wrap64 (C + U) - 1) = C + U - 1"
    using r by (simp add: wrap64_minus_one wrap64_id)
  then show ?thesis
    using assms q r2 by (simp add: roundUpSize_def wrap64_id)
qed

lemma ceil_bounds:
  fixes C U :: int
  assumes "0 < U"
  shows "C \<le> ((C + U - 1) div U) * U" "((C + U - 1) div U) * U < C + U"
proof -
  let ?n = "C + U - 1"
  have e: "?n div U * U + ?n mod U = ?n" by simp
  have m: "0 \<le> ?n mod U" "?n mod U < U" using assms by simp_all
  show "C \<le> (?n div U) * U" using e m by linarith
  show "(?n div U) * U < C + U" using e m by linarith
qed

lemma roundUpSize_MiB: "\<exists>n. roundUpSize v (1024 * 1024) = Some n"
  by (simp add: roundUpSize_def)

lemma Cmp_greater: "Cmp q y = 1 \<longleftrightarrow> y < q"
  by (simp add: Cmp_def)

subsection \<open>What each call leaves behind\<close>

lemma log_simps [simp]:
  "calls (logInfo m w) = calls w" "now (logInfo m w) = now w" "environ (logInfo m w) = environ w"
  "calls (logWarn m w) = calls w" "now (logWarn m w) = now w" "environ (logWarn m w) = environ w"
  "logs (logInfo m w) = logs w @ [(Info, m)]" "logs (logWarn m w) = logs w @ [(Warn, m)]"
  by (simp_all add: logInfo_def logWarn_def)

lemma sleepUntil_simps [simp]:
  "calls (sleepUntil t w) = calls w" "logs (sleepUntil t w) = logs w"
  "environ (sleepUntil t w) = environ w" "now (sleepUntil t w) = max (now w) t"
  by (simp_all add: sleepUntil_def)

lemma issued_append: "calls w' = calls w @ evs \<Longrightarrow> issued w w' = evs"
  by (simp add: issued_def)

lemma written_append: "logs w' = logs w @ ls \<Longrightarrow> written w w' = ls"
  by (simp add: written_def)

lemma CreateVolume_frame:
  "CreateVolume c ctx details w = (r, w') \<Longrightarrow>
     calls w' = calls w @ [EvCreateVolume details r] \<and> logs w' = logs w \<and> environ w' = environ w"
  by (auto simp: CreateVolume_def Let_def split: prod.splits)

lemma GetVolume_frame:
  "GetVolume c ctx volumeId w = (r, w') \<Longrightarrow>
     calls w' = calls w @ [EvGetVolume volumeId r] \<and> logs w' = logs w \<and> environ w' = environ w"
  by (auto simp: GetVolume_def Let_def split: prod.splits)

lemma DeleteVolume_frame:
  "DeleteVolume c ctx volumeId w = ((resp, e), w') \<Longrightarrow>
     calls w' = calls w @ [EvDeleteVolume volumeId resp e] \<and> logs w' = logs w \<and>
     environ w' = environ w"
  by (auto simp: DeleteVolume_def Let_def split: prod.splits)

lemma metadata_Get_frame:
  "metadata_Get block w = (r, w') \<Longrightarrow>
     calls w' = calls w @ [EvMetadataGet r] \<and> logs w' = logs w \<and> environ w' = environ w"
  by (auto simp: metadata_Get_def Let_def split: prod.splits)

lemma isVolumeReady_query:
  "GetVolume (block_client block) (WithTimeout ctx (Timeout (block_client block)) w) volumeID w
     = (r, w') \<Longrightarrow>
   isVolumeReady block ctx volumeID w = (classify r, w')"
  by (cases r; simp add: isVolumeReady_def classify_def split: volumeLifecycleState.splits)

lemma isVolumeReady_frame:
  assumes "isVolumeReady block ctx volumeID w = (res, w')"
  shows "\<exists>r. calls w' = calls w @ [EvGetVolume volumeID r] \<and> res = classify r \<and>
             logs w' = logs w \<and> environ w' = environ w"
proof -
  obtain r w1 where g: "GetVolume (block_client block)
      (WithTimeout ctx (Timeout (block_client block)) w) volumeID w = (r, w1)"
    by (cases "GetVolume (block_client block)
      (WithTimeout ctx (Timeout (block_client block)) w) volumeID w")
  from isVolumeReady_query [OF g] assms have "res = classify r" "w' = w1" by simp_all
  with GetVolume_frame [OF g] show ?thesis by blast
qed

lemma classify_ready: "classify r = Inr True \<longleftrightarrow> r = Inr VolumeLifecycleStateAvailable"
  by (auto simp: classify_def split: sum.splits if_splits)

lemma pollCondition_frame:
  assumes "pollCondition block ctx volumeID w = (res, w')"
  shows "\<exists>r. calls w' = calls w @ [EvGetVolume volumeID r] \<and>
             (res = Inr True \<longrightarrow> r = Inr VolumeLifecycleStateAvailable) \<and>
             logs w' = logs w \<and> environ w' = environ w"
proof -
  obtain res0 w0 where i: "isVolumeReady block ctx volumeID w = (res0, w0)"
    by (cases "isVolumeReady block ctx volumeID w")
  from isVolumeReady_frame [OF i] obtain r where
    r: "calls w0 = calls w @ [EvGetVolume volumeID r]" "res0 = classify r"
       "logs w0 = logs w" "environ w0 = environ w" by blast
  from assms i have "w' = w0" "res = Inr True \<longrightarrow> res0 = Inr True"
    by (auto simp: pollCondition_def split: sum.splits)
  with r show ?thesis by (auto simp: classify_ready)
qed

lemma gets_of_simps [simp]:
  "gets_of volumeID []"
  "gets_of volumeID (e # evs) \<longleftrightarrow> (\<exists>r. e = EvGetVolume volumeID r) \<and> gets_of volumeID evs"
  by (auto simp: gets_of_def)

lemma gets_of_filter:
  "gets_of volumeID evs \<Longrightarrow> filter is_get evs = evs \<and> filter is_delete evs = []"
  by (induction evs) auto

lemma gets_of_no_create: "gets_of volumeID evs \<Longrightarrow> filter is_create evs = []"
  by (induction evs) auto

lemma polled_once:
  assumes "pollCondition block ctx volumeID w0 = (c, w1)"
    and "calls w0 = calls w" "logs w0 = logs w" "environ w0 = environ w"
    and "c = Inr True \<longleftrightarrow> r = None"
  shows "polled volumeID w (r, w1)"
proof -
  from pollCondition_frame [OF assms(1)] obtain a where
    "calls w1 = calls w0 @ [EvGetVolume volumeID a]"
    "c = Inr True \<longrightarrow> a = Inr VolumeLifecycleStateAvailable"
    "logs w1 = logs w0" "environ w1 = environ w0"
    by blast
  with assms(2-5) show ?thesis
    unfolding polled_def by (intro exI [of _ "[EvGetVolume volumeID a]"]) simp
qed

lemma polled_more:
  assumes "pollCondition block ctx volumeID w0 = (c, w1)"
    and "calls w0 = calls w" "logs w0 = logs w" "environ w0 = environ w"
    and "polled volumeID w1 y"
  shows "polled volumeID w y"
proof -
  from pollCondition_frame [OF assms(1)] obtain a where
    a: "calls w1 = calls w0 @ [EvGetVolume volumeID a]"
    "logs w1 = logs w0" "environ w1 = environ w0"
    by blast
  from assms(5) [unfolded polled_def] obtain evs where
    evs: "calls (snd y) = calls w1 @ evs \<and> gets_of volumeID evs \<and> evs \<noteq> [] \<and>
      (fst y = None \<longrightarrow> last evs = EvGetVolume volumeID (Inr VolumeLifecycleStateAvailable)) \<and>
      logs (snd y) = logs w1 \<and> environ (snd y) = environ w1"
    by (rule exE)
  have 1: "calls (snd y) = calls w @ (EvGetVolume volumeID a # evs)"
    using evs a(1) assms(2) by simp
  have 2: "gets_of volumeID (EvGetVolume volumeID a # evs)"
    using evs by simp
  have 3: "fst y = None \<longrightarrow>
      last (EvGetVolume volumeID a # evs) = EvGetVolume volumeID (Inr VolumeLifecycleStateAvailable)"
    using evs by simp
  have 4: "logs (snd y) = logs w" "environ (snd y) = environ w"
    using evs a(2,3) assms(3,4) by simp_all
  show ?thesis
    unfolding polled_def
    using 1 2 3 4 by (intro exI [of _ "EvGetVolume volumeID a # evs"] conjI) simp_all
qed

lemma WaitFor_frame:
  assumes ret: "WaitFor interval stop (pollCondition block ctx volumeID) prev w = Some y"
  shows "polled volumeID w y"
proof -
  have "\<forall>block ctx volumeID. condition = pollCondition block ctx volumeID \<longrightarrow>
          polled volumeID w y"
    if "WaitFor interval stop condition prev w = Some y" for condition
  proof (rule WaitFor.raw_induct [where P = "\<lambda>interval stop condition prev w y.
      \<forall>block ctx volumeID. condition = pollCondition block ctx volumeID \<longrightarrow>
         polled volumeID w y", OF _ that], goal_cases)
    case (1 f interval stop condition prev w y)
    show ?case
    proof (intro allI impI)
      fix block ctx volumeID
      assume cond: "condition = pollCondition block ctx volumeID"
      let ?tick = "nextTick interval prev (now w)"
      let ?w0 = "sleepUntil (wakeTime stop ?tick) w"
      obtain c w1 where c: "pollCondition block ctx volumeID ?w0 = (c, w1)"
        by (cases "pollCondition block ctx volumeID ?w0")
      have frame: "calls ?w0 = calls w" "logs ?w0 = logs w" "environ ?w0 = environ w"
        by simp_all
      from "1"(2) cond c have body:
        "(case c of Inl err \<Rightarrow> Some (Some err, w1)
          | Inr ok \<Rightarrow> if ok then Some (None, w1)
              else if closedAt stop ?tick then Some (Some ErrWaitTimeout, w1)
              else f interval stop condition ?tick w1) = Some y"
        by (simp add: Let_def)
      show "polled volumeID w y"
      proof (cases c)
        case (Inl e)
        with body have "y = (Some e, w1)" by simp
        with Inl show ?thesis
          using polled_once [OF c frame, of "Some e"] by simp
      next
        case (Inr ok)
        show ?thesis
        proof (cases ok)
          case True
          with body Inr have "y = (None, w1)" by simp
          with Inr True show ?thesis
            using polled_once [OF c frame, of None] by simp
        next
          case False
          show ?thesis
          proof (cases "closedAt stop ?tick")
            case True
            with body Inr False have "y = (Some ErrWaitTimeout, w1)" by simp
            with Inr False show ?thesis
              using polled_once [OF c frame, of "Some ErrWaitTimeout"] by simp
          next
            case still_open: False
            with body Inr False have "f interval stop condition ?tick w1 = Some y"
              by simp
            from "1"(1) [OF this] cond have "polled volumeID w1 y"
              by blast
            then show ?thesis
              by (rule polled_more [OF c frame])
          qed
        qed
      qed
    qed
  qed
  from this [OF ret] show ?thesis by blast
qed

lemma waitForVolumeAvailable_frame:
  assumes "waitForVolumeAvailable block ctx volumeID timeout w = Some (res, w')"
  shows "\<exists>evs. calls w' = calls w @ evs \<and> gets_of volumeID evs \<and> evs \<noteq> [] \<and>
           (res = None \<longrightarrow> last evs = EvGetVolume volumeID (Inr VolumeLifecycleStateAvailable)) \<and>
           logs w' = logs w \<and> environ w' = environ w"
proof -
  let ?cond = "pollCondition block ctx volumeID"
  have w: "PollImmediate 5 timeout ?cond w = Some (res, w')"
    using assms by (simp add: waitForVolumeAvailable_def)
  obtain c w1 where c: "?cond w = (c, w1)"
    by (cases "?cond w")
  have "polled volumeID w (res, w')"
  proof (cases "c = Inr False")
    case False
    with w c have "w' = w1 \<and> (c = Inr True \<longleftrightarrow> res = None)"
      by (cases c) (auto simp: PollImmediate_def split: if_splits)
    then have "w' = w1" "c = Inr True \<longleftrightarrow> res = None"
      by simp_all
    with polled_once [OF c refl refl refl, of res] show ?thesis by simp
  next
    case True
    with w c have "WaitFor 5 (if timeout = 0 then None else Some (now w1 + timeout))
        ?cond (now w1) w1 = Some (res, w')"
      by (simp add: PollImmediate_def)
    then have "polled volumeID w1 (res, w')"
      by (rule WaitFor_frame)
    then show ?thesis
      by (rule polled_more [OF c refl refl refl])
  qed
  then show ?thesis
    unfolding polled_def by simp
qed

subsection \<open>The wait returns\<close>

text \<open>
  The ticks move on, so a wait under a timer ends, and so does a wait whose condition
  fails from some moment on, which is what a deadline of the context does to the status
  queries. Without a timer and without a deadline the wait polls for ever.
\<close>

lemma nextTick_gt: "0 < interval \<Longrightarrow> prev < nextTick interval prev ready"
  by (simp add: nextTick_def)

lemma ceil_nat: "0 < (i::nat) \<Longrightarrow> d \<le> i * ((d + i - 1) div i)"
proof -
  assume i: "0 < i"
  have "i * ((d + i - 1) div i) + (d + i - 1) mod i = d + i - 1"
    by simp
  moreover have "(d + i - 1) mod i < i"
    using i by simp
  ultimately show ?thesis
    by arith
qed

lemma nextTick_ge: "0 < interval \<Longrightarrow> ready \<le> nextTick interval prev ready"
proof -
  assume i: "0 < interval"
  have "ready - prev \<le> interval * ((ready - prev + interval - 1) div interval)"
    using i by (rule ceil_nat)
  also have "\<dots> \<le> interval * max 1 ((ready - prev + interval - 1) div interval)"
    by simp
  finally show ?thesis
    by (simp add: nextTick_def)
qed

lemma wakeTime_open: "\<not> closedAt stop tick \<Longrightarrow> wakeTime stop tick = tick"
  by (cases stop) (simp_all add: closedAt_def wakeTime_def)

lemma WaitFor_returns:
  assumes "0 < interval"
    and "stop = Some T \<or> (\<forall>w. T \<le> now w \<longrightarrow> isl (fst (condition w)))"
  shows "\<exists>y. WaitFor interval stop condition prev w = Some y"
proof (induction "T - prev" arbitrary: prev w rule: less_induct)
  case less
  let ?tick = "nextTick interval prev (now w)"
  let ?w0 = "sleepUntil (wakeTime stop ?tick) w"
  obtain c w1 where c: "condition ?w0 = (c, w1)"
    by (cases "condition ?w0")
  show ?case
  proof (cases "c = Inr False \<and> \<not> closedAt stop ?tick")
    case True
    then have "now ?w0 = max (now w) ?tick"
      by (simp add: wakeTime_open)
    then have late: "?tick \<le> now ?w0"
      by linarith
    have go: "\<not> isl (fst (condition ?w0))"
      using c True by simp
    have "?tick < T"
    proof (cases "stop = Some T")
      case True
      with \<open>c = Inr False \<and> \<not> closedAt stop ?tick\<close> show ?thesis
        by (simp add: closedAt_def)
    next
      case False
      with assms(2) go have "\<not> T \<le> now ?w0"
        by blast
      with late show ?thesis
        by linarith
    qed
    with nextTick_gt [OF assms(1), of prev "now w"] have "T - ?tick < T - prev"
      by arith
    from less [OF this] obtain y where "WaitFor interval stop condition ?tick w1 = Some y"
      by blast
    with True c show ?thesis
      by (subst WaitFor.simps) (simp add: Let_def)
  next
    case False
    show ?thesis
    proof (cases c)
      case (Inl e)
      with c show ?thesis
        by (subst WaitFor.simps) (simp add: Let_def)
    next
      case (Inr ok)
      with False have "ok \<or> closedAt stop ?tick"
        by simp
      then show ?thesis
        using c Inr by (subst WaitFor.simps) (auto simp: Let_def)
    qed
  qed
qed

lemma WaitFor_polls_forever:
  assumes "\<And>w. fst (condition w) = Inr False"
  shows "WaitFor interval None condition prev w = None"
proof -
  have "stop = None \<longrightarrow> (\<forall>w. fst (condition w) = Inr False) \<longrightarrow> False"
    if "WaitFor interval stop condition prev w = Some y" for stop y
  proof (rule WaitFor.raw_induct [where P = "\<lambda>interval stop condition prev w y.
      stop = None \<longrightarrow> (\<forall>w. fst (condition w) = Inr False) \<longrightarrow> False", OF _ that], goal_cases)
    case (1 f interval stop condition prev w y)
    show ?case
    proof (intro impI)
      assume stop: "stop = None" and never: "\<forall>w. fst (condition w) = Inr False"
      let ?tick = "nextTick interval prev (now w)"
      let ?w0 = "sleepUntil (wakeTime stop ?tick) w"
      obtain c w1 where c: "condition ?w0 = (c, w1)"
        by (cases "condition ?w0")
      with never [rule_format, of ?w0] have "c = Inr False"
        by simp
      with "1"(2) c stop have "f interval stop condition ?tick w1 = Some y"
        by (simp add: Let_def closedAt_def)
      from "1"(1) [OF this] stop never show False
        by blast
    qed
  qed
  with assms show ?thesis
    by (cases "WaitFor interval None condition prev w") auto
qed

lemma PollImmediate_polls_forever:
  assumes "\<And>w. fst (condition w) = Inr False" and "0 < interval"
  shows "PollImmediate interval 0 condition w = None"
proof -
  obtain c w1 where c: "condition w = (c, w1)"
    by (cases "condition w")
  with assms(1) [of w] have "c = Inr False"
    by simp
  with c assms(2) WaitFor_polls_forever [of condition interval "now w1" w1, OF assms(1)]
  show ?thesis
    by (simp add: PollImmediate_def)
qed

lemma pollCondition_fails_after_deadline:
  "d \<le> now w \<Longrightarrow> isl (fst (pollCondition block (Some d) volumeID w))"
  by (simp add: pollCondition_def isVolumeReady_def GetVolume_def WithTimeout_def in_time_def
      Let_def split: prod.splits)

lemma waitForVolumeAvailable_returns:
  "\<exists>res w'. waitForVolumeAvailable block (Some d) volumeID timeout w = Some (res, w')"
proof -
  let ?cond = "pollCondition block (Some d) volumeID"
  obtain c w1 where c: "?cond w = (c, w1)"
    by (cases "?cond w")
  have "\<exists>y. WaitFor 5 (if timeout = 0 then None else Some (now w1 + timeout)) ?cond (now w1) w1
          = Some y"
    by (rule WaitFor_returns [where T = d]) (simp_all add: pollCondition_fails_after_deadline)
  with c show ?thesis
    by (cases c) (auto simp: waitForVolumeAvailable_def PollImmediate_def)
qed

subsection \<open>How long the wait takes\<close>

text \<open>
  A status query returns within the client's timeout. Under a positive timeout the wait
  takes no longer than the timeout and three status queries: the first one, made before
  the timer is started, one that is on its way when the timer fires, and the last one.
\<close>

lemma GetVolume_time:
  "GetVolume c (Some d) volumeId w = (r, w') \<Longrightarrow> now w \<le> now w' \<and> now w' \<le> max (now w) d"
  by (auto simp: GetVolume_def return_time_def Let_def split: prod.splits if_splits)

lemma pollCondition_time:
  assumes "pollCondition block ctx volumeID w = (res, w')"
  shows "now w \<le> now w' \<and> now w' \<le> now w + Timeout (block_client block)"
proof -
  obtain d where d: "WithTimeout ctx (Timeout (block_client block)) w = Some d"
    "d \<le> now w + Timeout (block_client block)"
    by (cases ctx) (simp_all add: WithTimeout_def)
  obtain r w1 where g: "GetVolume (block_client block) (Some d) volumeID w = (r, w1)"
    by (cases "GetVolume (block_client block) (Some d) volumeID w")
  from g d(1) have "GetVolume (block_client block)
      (WithTimeout ctx (Timeout (block_client block)) w) volumeID w = (r, w1)"
    by simp
  then have "isVolumeReady block ctx volumeID w = (classify r, w1)"
    by (rule isVolumeReady_query)
  with assms have "w' = w1"
    by (auto simp: pollCondition_def split: sum.splits)
  with GetVolume_time [OF g] d(2) show ?thesis
    by (simp add: max_def split: if_splits)
qed

lemma WaitFor_time:
  assumes ret: "WaitFor interval (Some T) condition prev w = Some y"
    and cond: "\<And>w r w'. condition w = (r, w') \<Longrightarrow> now w' \<le> now w + C"
    and pos: "0 < interval"
    and start: "now w \<le> T + C"
  shows "now (snd y) \<le> T + 2 * C"
proof -
  have "\<forall>T. stop = Some T \<longrightarrow> 0 < interval \<longrightarrow>
          (\<forall>w r w'. condition w = (r, w') \<longrightarrow> now w' \<le> now w + C) \<longrightarrow>
          now w \<le> T + C \<longrightarrow> now (snd y) \<le> T + 2 * C"
    if "WaitFor interval stop condition prev w = Some y" for stop
  proof (rule WaitFor.raw_induct [where P = "\<lambda>interval stop condition prev w y.
      \<forall>T. stop = Some T \<longrightarrow> 0 < interval \<longrightarrow>
          (\<forall>w r w'. condition w = (r, w') \<longrightarrow> now w' \<le> now w + C) \<longrightarrow>
          now w \<le> T + C \<longrightarrow> now (snd y) \<le> T + 2 * C", OF _ that], goal_cases)
    case (1 f interval stop condition prev w y)
    show ?case
    proof (intro allI impI)
      fix T
      assume stop: "stop = Some T" and pos: "0 < interval"
        and cond: "\<forall>w r w'. condition w = (r, w') \<longrightarrow> now w' \<le> now w + C"
        and start: "now w \<le> T + C"
      let ?tick = "nextTick interval prev (now w)"
      let ?w0 = "sleepUntil (wakeTime stop ?tick) w"
      obtain c w1 where c: "condition ?w0 = (c, w1)"
        by (cases "condition ?w0")
      have tick: "now w \<le> ?tick"
        using pos by (rule nextTick_ge)
      have w0: "now ?w0 \<le> T + C"
        using start stop by (simp add: wakeTime_def)
      from cond c have w1: "now w1 \<le> now ?w0 + C"
        by blast
      with w0 have last: "now w1 \<le> T + 2 * C"
        by linarith
      from "1"(2) c have body:
        "(case c of Inl err \<Rightarrow> Some (Some err, w1)
          | Inr ok \<Rightarrow> if ok then Some (None, w1)
              else if closedAt stop ?tick then Some (Some ErrWaitTimeout, w1)
              else f interval stop condition ?tick w1) = Some y"
        by (simp add: Let_def)
      show "now (snd y) \<le> T + 2 * C"
      proof (cases "c = Inr False \<and> \<not> closedAt stop ?tick")
        case True
        with body have rec: "f interval stop condition ?tick w1 = Some y"
          by simp
        from True stop have "?tick < T"
          by (simp add: closedAt_def)
        moreover from True tick have "now ?w0 = ?tick"
          by (simp add: wakeTime_open)
        ultimately have "now w1 \<le> T + C"
          using w1 by linarith
        with "1"(1) [OF rec] stop pos cond show ?thesis
          by blast
      next
        case False
        with body have "snd y = w1"
          by (cases c) (auto split: if_splits)
        with last show ?thesis
          by simp
      qed
    qed
  qed
  from this [OF ret] cond pos start show ?thesis
    by blast
qed

lemma waitForVolumeAvailable_time:
  assumes "waitForVolumeAvailable block ctx volumeID timeout w = Some (res, w')"
    and "0 < timeout"
  shows "now w' \<le> now w + timeout + 3 * Timeout (block_client block)"
proof -
  let ?cond = "pollCondition block ctx volumeID"
  let ?C = "Timeout (block_client block)"
  have w: "PollImmediate 5 timeout ?cond w = Some (res, w')"
    using assms(1) by (simp add: waitForVolumeAvailable_def)
  obtain c w1 where c: "?cond w = (c, w1)"
    by (cases "?cond w")
  from pollCondition_time [OF c] have w1: "now w1 \<le> now w + ?C"
    by simp
  show ?thesis
  proof (cases "c = Inr False")
    case False
    with w c have "w' = w1"
      by (cases c) (auto simp: PollImmediate_def split: if_splits)
    with w1 show ?thesis
      by simp
  next
    case True
    with w c assms(2) have "WaitFor 5 (Some (now w1 + timeout)) ?cond (now w1) w1 = Some (res, w')"
      by (simp add: PollImmediate_def)
    then have "now (snd (res, w')) \<le> now w1 + timeout + 2 * ?C"
      by (rule WaitFor_time) (simp_all add: pollCondition_time)
    with w1 show ?thesis
      by simp
  qed
qed

subsection \<open>Status queries after the deadline of their parent\<close>

lemma isVolumeReady_after_deadline:
  assumes "d \<le> now w"
  shows "fst (isVolumeReady block (Some d) volumeID w) = Inl ErrDeadlineExceeded"
  using assms
  by (simp add: isVolumeReady_def GetVolume_def WithTimeout_def in_time_def Let_def
      split: prod.splits)

lemma waitForVolumeAvailable_after_deadline:
  assumes "d \<le> now w"
  shows "map_option fst (waitForVolumeAvailable block (Some d) volumeID timeout w)
           = Some (Some (ErrFailedToProvision volumeID ErrDeadlineExceeded))"
proof -
  obtain w' where "isVolumeReady block (Some d) volumeID w = (Inl ErrDeadlineExceeded, w')"
    using isVolumeReady_after_deadline [OF assms, of block volumeID]
    by (cases "isVolumeReady block (Some d) volumeID w") simp
  then show ?thesis
    by (simp add: waitForVolumeAvailable_def PollImmediate_def pollCondition_def)
qed

subsection \<open>The request\<close>

lemma Provision_request_frame:
  "Provision_request P block options ad w = (res, w') \<Longrightarrow>
     calls w' = calls w \<and> now w' = now w \<and> environ w' = environ w"
  by (auto simp: Provision_request_def Let_def
      split: option.splits if_splits prod.splits sum.splits)

lemma Provision_request_invalid_mode:
  "find (\<lambda>accessMode. accessMode \<noteq> ReadWriteOnce) (pvc_AccessModes (PVC options)) = Some m \<Longrightarrow>
   Provision_request P block options ad w = (Inl (ErrInvalidAccessMode m), w)"
  by (simp add: Provision_request_def)

lemma Provision_request_valid_modes:
  "find (\<lambda>accessMode. accessMode \<noteq> ReadWriteOnce) (pvc_AccessModes (PVC options)) = None \<Longrightarrow>
   fst (Provision_request P block options ad w) \<noteq> Inl (ErrInvalidAccessMode m)"
  by (auto simp: Provision_request_def Let_def split: option.splits if_splits)

lemma Provision_request_ok:
  assumes "Provision_request P block options ad w = (Inr (volumeDetails, capacity), w1)"
  shows "\<exists>requested. pvc_Requests (PVC options) ResourceStorage = Some requested \<and>
           set (pvc_AccessModes (PVC options)) \<subseteq> {ReadWriteOnce} \<and>
           capacity = effectiveCapacity block options requested \<and>
           roundUpSize (Value capacity) (1024 * 1024) = Some (SizeInMBs volumeDetails)"
proof -
  from assms have f: "find (\<lambda>accessMode. accessMode \<noteq> ReadWriteOnce)
      (pvc_AccessModes (PVC options)) = None"
    by (auto simp: Provision_request_def split: option.splits)
  with assms obtain requested where
    r: "pvc_Requests (PVC options) ResourceStorage = Some requested"
    by (auto simp: Provision_request_def split: option.splits)
  with f assms have "capacity = effectiveCapacity block options requested \<and>
           roundUpSize (Value capacity) (1024 * 1024) = Some (SizeInMBs volumeDetails)"
    by (auto simp: Provision_request_def Let_def effectiveCapacity_def roundsUp_def Cmp_greater
        split: option.splits if_splits)
  with r f show ?thesis by (auto simp: find_None_iff)
qed

lemma Provision_request_runs:
  assumes modes: "set (pvc_AccessModes (PVC options)) \<subseteq> {ReadWriteOnce}"
    and req: "pvc_Requests (PVC options) ResourceStorage = Some requested"
  shows "\<exists>volumeDetails w1 ls.
           Provision_request P block options ad w
             = (Inr (volumeDetails, effectiveCapacity block options requested), w1) \<and>
           logs w1 = logs w @ ls \<and>
           filter is_warning ls =
             (if roundsUp block options requested then [(Warn, roundingMessage)] else [])"
proof -
  have f: "find (\<lambda>accessMode. accessMode \<noteq> ReadWriteOnce)
      (pvc_AccessModes (PVC options)) = None"
    using modes by (auto simp: find_None_iff)
  obtain n where n: "roundUpSize (Value requested) (1024 * 1024) = Some n"
    using roundUpSize_MiB by blast
  obtain m where m: "roundUpSize (Value (block_minVolumeSize block)) (1024 * 1024) = Some m"
    using roundUpSize_MiB by blast
  show ?thesis
  proof (cases "roundsUp block options requested")
    case True
    then show ?thesis
      using f req n m
      by (cases "pvc_Annotations (PVC options) OCIVolumeBackupID")
         (simp_all add: Provision_request_def Let_def effectiveCapacity_def roundsUp_def
            Cmp_greater is_warning_def)
  next
    case False
    then show ?thesis
      using f req n m
      by (cases "pvc_Annotations (PVC options) OCIVolumeBackupID")
         (auto simp: Provision_request_def Let_def effectiveCapacity_def roundsUp_def
            Cmp_greater is_warning_def)
  qed
qed

subsection \<open>The paths through Provision\<close>

lemma createCtx_deadline: "createCtx block w = Some (now w + Timeout (block_client block))"
  by (simp add: WithTimeout_def Background_def)

lemma Provision_request_failed:
  "Provision_request P block options ad w = (Inl e, w1) \<Longrightarrow>
   Provision P block options ad w = Some (Inl e, w1)"
  by (simp add: Provision_def)

lemma Provision_create_failed:
  assumes "Provision_request P block options ad w = (Inr (volumeDetails, capacity), w1)"
    and "CreateVolume (block_client block) (createCtx block w1) volumeDetails w1 = (Inl e, w2)"
  shows "Provision P block options ad w = Some (Inl e, w2)"
  using assms by (simp add: Provision_def)

lemma Provision_wait_failed:
  assumes "Provision_request P block options ad w = (Inr (volumeDetails, capacity), w1)"
    and "CreateVolume (block_client block) (createCtx block w1) volumeDetails w1 = (Inr newVolume, w2)"
    and "waitForVolumeAvailable block (createCtx block w1) (volume_Id newVolume)
           (block_timeout block) (waiting w2) = Some (Some e, w3)"
    and "DeleteVolume (block_client block)
           (WithTimeout (createCtx block w1) (Timeout (block_client block)) w3)
           (volume_Id newVolume) w3 = (r, w4)"
  shows "Provision P block options ad w = Some (Inl e, w4)"
  using assms by (simp add: Provision_def)

lemma Provision_env_region:
  assumes "Provision_request P block options ad w = (Inr (volumeDetails, capacity), w1)"
    and "CreateVolume (block_client block) (createCtx block w1) volumeDetails w1 = (Inr newVolume, w2)"
    and "waitForVolumeAvailable block (createCtx block w1) (volume_Id newVolume)
           (block_timeout block) (waiting w2) = Some (None, w3)"
    and "LookupEnv ''OCI_SHORT_REGION'' w3 = Some region"
  shows "Provision P block options ad w =
    Some (Inr (Provision_pv P options ad capacity newVolume (resolveFSType options) region), w3)"
  using assms by (simp add: Provision_def)

lemma Provision_metadata_region:
  assumes "Provision_request P block options ad w = (Inr (volumeDetails, capacity), w1)"
    and "CreateVolume (block_client block) (createCtx block w1) volumeDetails w1 = (Inr newVolume, w2)"
    and "waitForVolumeAvailable block (createCtx block w1) (volume_Id newVolume)
           (block_timeout block) (waiting w2) = Some (None, w3)"
    and "LookupEnv ''OCI_SHORT_REGION'' w3 = None"
    and "metadata_Get block w3 = (Inr metadata, w4)"
  shows "Provision P block options ad w =
    Some (Inr (Provision_pv P options ad capacity newVolume (resolveFSType options) (Region metadata)), w4)"
  using assms by (simp add: Provision_def)

lemma Provision_metadata_failed:
  assumes "Provision_request P block options ad w = (Inr (volumeDetails, capacity), w1)"
    and "CreateVolume (block_client block) (createCtx block w1) volumeDetails w1 = (Inr newVolume, w2)"
    and "waitForVolumeAvailable block (createCtx block w1) (volume_Id newVolume)
           (block_timeout block) (waiting w2) = Some (None, w3)"
    and "LookupEnv ''OCI_SHORT_REGION'' w3 = None"
    and "metadata_Get block w3 = (Inl e, w4)"
  shows "Provision P block options ad w = Some (Inl e, w4)"
  using assms by (simp add: Provision_def)

lemma Provision_cases [consumes 1, case_names request_failed create_failed wait_failed
    env_region metadata_failed metadata_region]:
  assumes run: "Provision P block options ad w = Some (res, w')"
  obtains
    e where "Provision_request P block options ad w = (Inl e, w')" "res = Inl e"
  | volumeDetails capacity w1 e where
      "Provision_request P block options ad w = (Inr (volumeDetails, capacity), w1)"
      "CreateVolume (block_client block) (createCtx block w1) volumeDetails w1 = (Inl e, w')"
      "res = Inl e"
  | volumeDetails capacity w1 newVolume w2 e w3 response derr where
      "Provision_request P block options ad w = (Inr (volumeDetails, capacity), w1)"
      "CreateVolume (block_client block) (createCtx block w1) volumeDetails w1 = (Inr newVolume, w2)"
      "waitForVolumeAvailable block (createCtx block w1) (volume_Id newVolume)
         (block_timeout block) (waiting w2) = Some (Some e, w3)"
      "DeleteVolume (block_client block)
         (WithTimeout (createCtx block w1) (Timeout (block_client block)) w3)
         (volume_Id newVolume) w3 = ((response, derr), w')"
      "res = Inl e"
  | volumeDetails capacity w1 newVolume w2 region where
      "Provision_request P block options ad w = (Inr (volumeDetails, capacity), w1)"
      "CreateVolume (block_client block) (createCtx block w1) volumeDetails w1 = (Inr newVolume, w2)"
      "waitForVolumeAvailable block (createCtx block w1) (volume_Id newVolume)
         (block_timeout block) (waiting w2) = Some (None, w')"
      "LookupEnv ''OCI_SHORT_REGION'' w' = Some region"
      "res = Inr (Provision_pv P options ad capacity newVolume (resolveFSType options) region)"
  | volumeDetails capacity w1 newVolume w2 w3 e where
      "Provision_request P block options ad w = (Inr (volumeDetails, capacity), w1)"
      "CreateVolume (block_client block) (createCtx block w1) volumeDetails w1 = (Inr newVolume, w2)"
      "waitForVolumeAvailable block (createCtx block w1) (volume_Id newVolume)
         (block_timeout block) (waiting w2) = Some (None, w3)"
      "LookupEnv ''OCI_SHORT_REGION'' w3 = None"
      "metadata_Get block w3 = (Inl e, w')"
      "res = Inl e"
  | volumeDetails capacity w1 newVolume w2 w3 metadata where
      "Provision_request P block options ad w = (Inr (volumeDetails, capacity), w1)"
      "CreateVolume (block_client block) (createCtx block w1) volumeDetails w1 = (Inr newVolume, w2)"
      "waitForVolumeAvailable block (createCtx block w1) (volume_Id newVolume)
         (block_timeout block) (waiting w2) = Some (None, w3)"
      "LookupEnv ''OCI_SHORT_REGION'' w3 = None"
      "metadata_Get block w3 = (Inr metadata, w')"
      "res = Inr (Provision_pv P options ad capacity newVolume (resolveFSType options)
                   (Region metadata))"
proof -
  obtain q w1 where req: "Provision_request P block options ad w = (q, w1)"
    by (cases "Provision_request P block options ad w")
  show thesis
  proof (cases q)
    case (Inl e)
    with req run Provision_request_failed [of P block options ad w e w1] that(1) show thesis
      by simp
  next
    case (Inr dc)
    obtain volumeDetails capacity where dc: "dc = (volumeDetails, capacity)"
      by (cases dc)
    note req' = req [unfolded Inr dc]
    obtain c w2 where cr:
      "CreateVolume (block_client block) (createCtx block w1) volumeDetails w1 = (c, w2)"
      by (cases "CreateVolume (block_client block) (createCtx block w1) volumeDetails w1")
    show thesis
    proof (cases c)
      case (Inl e)
      with Provision_create_failed [OF req'] cr run that(2) [OF req'] show thesis
        by simp
    next
      case (Inr newVolume)
      note cr' = cr [unfolded Inr]
      obtain p w3 where wt: "waitForVolumeAvailable block (createCtx block w1)
          (volume_Id newVolume) (block_timeout block) (waiting w2) = Some (p, w3)"
        using waitForVolumeAvailable_returns
          [of block "now w1 + Timeout (block_client block)" "volume_Id newVolume"
             "block_timeout block" "waiting w2"]
        by (auto simp: createCtx_deadline)
      show thesis
      proof (cases p)
        case (Some e)
        note wt' = wt [unfolded Some]
        obtain response derr w4 where del: "DeleteVolume (block_client block)
           (WithTimeout (createCtx block w1) (Timeout (block_client block)) w3)
           (volume_Id newVolume) w3 = ((response, derr), w4)"
          by (metis prod.exhaust)
        from Provision_wait_failed [OF req' cr' wt' del] run
        have "res = Inl e" "w' = w4" by simp_all
        with that(3) [OF req' cr' wt'] del show thesis by simp
      next
        case None
        note wt' = wt [unfolded None]
        show thesis
        proof (cases "LookupEnv ''OCI_SHORT_REGION'' w3")
          case (Some region)
          from Provision_env_region [OF req' cr' wt' Some] run
          have "res = Inr (Provision_pv P options ad capacity newVolume (resolveFSType options) region)"
            "w' = w3" by simp_all
          with that(4) [OF req' cr'] wt' Some show thesis by simp
        next
          case None
          obtain m w4 where md: "metadata_Get block w3 = (m, w4)"
            by (cases "metadata_Get block w3")
          show thesis
          proof (cases m)
            case (Inl e)
            from Provision_metadata_failed [OF req' cr' wt' None md [unfolded Inl]] run
            have "res = Inl e" "w' = w4" by simp_all
            with that(5) [OF req' cr' wt' None] md Inl show thesis by simp
          next
            case (Inr metadata)
            from Provision_metadata_region [OF req' cr' wt' None md [unfolded Inr]] run
            have "res = Inr (Provision_pv P options ad capacity newVolume
                     (resolveFSType options) (Region metadata))" "w' = w4" by simp_all
            with that(6) [OF req' cr' wt' None] md Inr show thesis by simp
          qed
        qed
      qed
    qed
  qed
qed

lemma Provision_returns: "\<exists>res w'. Provision P block options ad w = Some (res, w')"
proof (cases "Provision P block options ad w")
  case (Some y)
  then show ?thesis
    by (cases y) simp
next
  case None
  obtain q w1 where req: "Provision_request P block options ad w = (q, w1)"
    by (cases "Provision_request P block options ad w")
  show ?thesis
  proof (cases q)
    case (Inl e)
    with req None show ?thesis
      by (simp add: Provision_def)
  next
    case (Inr dc)
    obtain c w2 where cr:
      "CreateVolume (block_client block) (createCtx block w1) (fst dc) w1 = (c, w2)"
      by (cases "CreateVolume (block_client block) (createCtx block w1) (fst dc) w1")
    show ?thesis
    proof (cases c)
      case (Inl e)
      with req Inr cr None show ?thesis
        by (cases dc) (simp add: Provision_def)
    next
      case (Inr newVolume)
      obtain p w3 where "waitForVolumeAvailable block (createCtx block w1)
          (volume_Id newVolume) (block_timeout block) (waiting w2) = Some (p, w3)"
        using waitForVolumeAvailable_returns
          [of block "now w1 + Timeout (block_client block)" "volume_Id newVolume"
             "block_timeout block" "waiting w2"]
        by (auto simp: createCtx_deadline)
      with req \<open>q = Inr dc\<close> cr Inr None show ?thesis
        by (cases dc; cases p)
           (auto simp: Provision_def Let_def split: option.splits prod.splits sum.splits)
    qed
  qed
qed

lemma Provision_after_request:
  assumes req: "Provision_request P block options ad w = (Inr (volumeDetails, capacity), w1)"
    and run: "Provision P block options ad w = Some (res, w')"
  shows "(\<exists>r rest. issued w w' = EvCreateVolume volumeDetails r # rest \<and>
            filter is_create rest = []) \<and>
         (\<exists>ls. logs w' = logs w1 @ ls \<and> filter is_warning ls = []) \<and>
         (\<forall>pv. res = Inr pv \<longrightarrow> pv_Capacity pv ResourceStorage = Some capacity)"
  using run
proof (cases rule: Provision_cases)
  case (request_failed e)
  with req show ?thesis by simp
next
  case (create_failed volumeDetails' capacity' w1' e)
  with req have eq: "volumeDetails' = volumeDetails" "capacity' = capacity" "w1' = w1" by simp_all
  from Provision_request_frame [OF req] CreateVolume_frame [OF create_failed(2)] eq
  have "calls w' = calls w @ [EvCreateVolume volumeDetails (Inl e)]" "logs w' = logs w1"
    by simp_all
  with create_failed(3) show ?thesis
    by (simp add: issued_def)
next
  case (wait_failed volumeDetails' capacity' w1' newVolume w2 e w3 response derr)
  with req have eq: "volumeDetails' = volumeDetails" "capacity' = capacity" "w1' = w1" by simp_all
  from waitForVolumeAvailable_frame [OF wait_failed(3)] obtain evs where
    evs: "calls w3 = calls w2 @ evs" "gets_of (volume_Id newVolume) evs"
      "logs w3 = logs w2 @ [(Info, ''Waiting for volume to become available.'')]"
    by auto
  from Provision_request_frame [OF req] CreateVolume_frame [OF wait_failed(2)]
    DeleteVolume_frame [OF wait_failed(4)] eq evs
  have "calls w' = calls w @ EvCreateVolume volumeDetails (Inr newVolume) # evs @
          [EvDeleteVolume (volume_Id newVolume) response derr]"
    "logs w' = logs w1 @ [(Info, ''Waiting for volume to become available.'')]"
    by simp_all
  with wait_failed(5) gets_of_no_create [OF evs(2)] show ?thesis
    by (simp add: issued_def is_warning_def)
next
  case (env_region volumeDetails' capacity' w1' newVolume w2 region)
  with req have eq: "volumeDetails' = volumeDetails" "capacity' = capacity" "w1' = w1" by simp_all
  from waitForVolumeAvailable_frame [OF env_region(3)] obtain evs where
    evs: "calls w' = calls w2 @ evs" "gets_of (volume_Id newVolume) evs"
      "logs w' = logs w2 @ [(Info, ''Waiting for volume to become available.'')]"
    by auto
  from Provision_request_frame [OF req] CreateVolume_frame [OF env_region(2)] eq evs
  have "calls w' = calls w @ EvCreateVolume volumeDetails (Inr newVolume) # evs"
    "logs w' = logs w1 @ [(Info, ''Waiting for volume to become available.'')]"
    by simp_all
  with env_region(5) eq gets_of_no_create [OF evs(2)] show ?thesis
    by (simp add: issued_def is_warning_def Provision_pv_def)
next
  case (metadata_failed volumeDetails' capacity' w1' newVolume w2 w3 e)
  with req have eq: "volumeDetails' = volumeDetails" "capacity' = capacity" "w1' = w1" by simp_all
  from waitForVolumeAvailable_frame [OF metadata_failed(3)] obtain evs where
    evs: "calls w3 = calls w2 @ evs" "gets_of (volume_Id newVolume) evs"
      "logs w3 = logs w2 @ [(Info, ''Waiting for volume to become available.'')]"
    by auto
  from Provision_request_frame [OF req] CreateVolume_frame [OF metadata_failed(2)]
    metadata_Get_frame [OF metadata_failed(5)] eq evs
  have "calls w' = calls w @ EvCreateVolume volumeDetails (Inr newVolume) # evs @
          [EvMetadataGet (Inl e)]"
    "logs w' = logs w1 @ [(Info, ''Waiting for volume to become available.'')]"
    by simp_all
  with metadata_failed(6) gets_of_no_create [OF evs(2)] show ?thesis
    by (simp add: issued_def is_warning_def)
next
  case (metadata_region volumeDetails' capacity' w1' newVolume w2 w3 metadata)
  with req have eq: "volumeDetails' = volumeDetails" "capacity' = capacity" "w1' = w1" by simp_all
  from waitForVolumeAvailable_frame [OF metadata_region(3)] obtain evs where
    evs: "calls w3 = calls w2 @ evs" "gets_of (volume_Id newVolume) evs"
      "logs w3 = logs w2 @ [(Info, ''Waiting for volume to become available.'')]"
    by auto
  from Provision_request_frame [OF req] CreateVolume_frame [OF metadata_region(2)]
    metadata_Get_frame [OF metadata_region(5)] eq evs
  have "calls w' = calls w @ EvCreateVolume volumeDetails (Inr newVolume) # evs @
          [EvMetadataGet (Inr metadata)]"
    "logs w' = logs w1 @ [(Info, ''Waiting for volume to become available.'')]"
    by simp_all
  with metadata_region(6) eq gets_of_no_create [OF evs(2)] show ?thesis
    by (simp add: issued_def is_warning_def Provision_pv_def)
qed

subsection \<open>The delete behaviour of the provider before the delete call\<close>

lemma deleting_request:
  "Provision_request P (deleting d block) options ad w = Provision_request P block options ad w"
  by (simp add: Provision_request_def Let_def
      cong: option.case_cong if_cong prod.case_cong sum.case_cong)

lemma deleting_create:
  "CreateVolume (c\<lparr>deleteVolume_reply := d\<rparr>) ctx details w = CreateVolume c ctx details w"
  by (simp add: CreateVolume_def)

lemma deleting_ready:
  "isVolumeReady (deleting d block) ctx volumeID = isVolumeReady block ctx volumeID"
  by (rule ext) (simp add: isVolumeReady_def GetVolume_def)

lemma deleting_wait:
  "waitForVolumeAvailable (deleting d block) ctx volumeID timeout w =
   waitForVolumeAvailable block ctx volumeID timeout w"
proof -
  have "pollCondition (deleting d block) ctx volumeID = pollCondition block ctx volumeID"
    by (rule ext) (simp add: pollCondition_def deleting_ready)
  then show ?thesis by (simp add: waitForVolumeAvailable_def)
qed

subsection \<open>Evaluation on the scripted provider\<close>

lemmas demo_defs = demoPkg_def demoClient_def demoBlock_def demoOptions_def demoAd_def demoWorld_def
  alwaysProvisioning_def availableAfter_def deletedOk_def

lemmas model_defs = Provision_def Provision_request_def Provision_pv_def waitForVolumeAvailable_def
  PollImmediate_def pollCondition_def isVolumeReady_def CreateVolume_def GetVolume_def DeleteVolume_def metadata_Get_def
  WithTimeout_def Background_def in_time_def return_time_def sleepUntil_def nextTick_def
  closedAt_def wakeTime_def WaitFor.simps logInfo_def logWarn_def
  LookupEnv_def roundUpSize_def wrap64_def Value_def Cmp_def volumeRoundingEnabled_def
  volumeRoundingUpEnabled_def ParseBool_def resolveFSType_def FSType_def OCIVolumeID_def
  OCIVolumeBackupID_def ResourceStorage_def StatusNotFound_def

lemmas eval_defs = model_defs demo_defs signed_divide_int_def Let_def

lemmas more_defs = alwaysFaulty_def deleteFails_def demoVolume_def demoDetails_def
  metadataFails_def demoPv_def

text \<open>
  A provider that never gets beyond the state provisioning, under a client timeout of 100
  seconds and a provisioner timeout of 60 seconds: the volume is polled until the timer of
  the wait has fired, the wait ends with its timeout, and the volume is deleted.
\<close>

lemma Provision_wait_times_out:
  "map_option fst (Provision demoPkg (demoBlock (demoClient 100 alwaysProvisioning deletedOk))
      (demoOptions [ReadWriteOnce] 42949672960) demoAd demoWorld) = Some (Inl ErrWaitTimeout) \<and>
   map_option (\<lambda>r. filter is_delete (calls (snd r)))
     (Provision demoPkg (demoBlock (demoClient 100 alwaysProvisioning deletedOk))
        (demoOptions [ReadWriteOnce] 42949672960) demoAd demoWorld)
     = Some [EvDeleteVolume ''ocid1.volume.oc1.phx.v'' \<lparr>RawResponse = Some 204\<rparr> None]"
  by (simp add: eval_defs)

text \<open>
  The condition is evaluated once more when the timer has fired. Under a timeout of
  twelve seconds the timer is set for second 14 (the first query is answered at second 2):
  a volume that becomes available in second 14 is found by the fourth status query, after
  the queries of the seconds 1, 7 and 12. Under a timeout of three seconds, shorter than
  the interval, a volume that becomes available in second 5 is found by the second query.
\<close>

lemma Provision_polls_when_timer_fires:
  "map_option (isl \<circ> fst)
     (Provision demoPkg ((demoBlock (demoClient 100 (availableAfter 14) deletedOk))
                           \<lparr>block_timeout := 12\<rparr>)
        (demoOptions [ReadWriteOnce] 42949672960) demoAd demoWorld) = Some False \<and>
   map_option (length \<circ> filter is_get \<circ> calls \<circ> snd)
     (Provision demoPkg ((demoBlock (demoClient 100 (availableAfter 14) deletedOk))
                           \<lparr>block_timeout := 12\<rparr>)
        (demoOptions [ReadWriteOnce] 42949672960) demoAd demoWorld) = Some 4 \<and>
   map_option (isl \<circ> fst)
     (Provision demoPkg ((demoBlock (demoClient 100 (availableAfter 5) deletedOk))
                           \<lparr>block_timeout := 3\<rparr>)
        (demoOptions [ReadWriteOnce] 42949672960) demoAd demoWorld) = Some False \<and>
   map_option (length \<circ> filter is_get \<circ> calls \<circ> snd)
     (Provision demoPkg ((demoBlock (demoClient 100 (availableAfter 5) deletedOk))
                           \<lparr>block_timeout := 3\<rparr>)
        (demoOptions [ReadWriteOnce] 42949672960) demoAd demoWorld) = Some 2"
  by (simp add: eval_defs)

text \<open>
  A provider that never gets beyond the state provisioning, polled without a deadline and
  without a timeout: the wait never returns.
\<close>

lemma waitForVolumeAvailable_polls_forever:
  "waitForVolumeAvailable (demoBlock (demoClient 100 alwaysProvisioning deletedOk)) Background
     ''ocid1.volume.oc1.phx.v'' 0 demoWorld = None"
  unfolding waitForVolumeAvailable_def
  by (rule PollImmediate_polls_forever)
     (simp_all add: pollCondition_def isVolumeReady_def GetVolume_def WithTimeout_def
        Background_def in_time_def demo_defs Let_def)

section \<open>The claims\<close>

subsection \<open>C1: validation of the access modes\<close>

text \<open>
  Claim C1, as amended. The validation of the access modes rejects exactly the requests
  whose list of access modes holds a mode other than \<open>ReadWriteOnce\<close>. For such a request
  \<open>Provision\<close> returns the invalid-access-mode error for one of these modes and leaves the
  world as it was: no call has been made, nothing has been logged, no time has passed. A
  request whose list holds no other mode, the empty list included, passes the validation.
\<close>

theorem Provision_rejects_other_modes:
  "((\<exists>m. fst (Provision_request P block options ad w) = Inl (ErrInvalidAccessMode m))
      \<longleftrightarrow> (\<exists>m \<in> set (pvc_AccessModes (PVC options)). m \<noteq> ReadWriteOnce)) \<and>
   ((\<exists>m \<in> set (pvc_AccessModes (PVC options)). m \<noteq> ReadWriteOnce) \<longrightarrow>
      (\<exists>rejected \<in> set (pvc_AccessModes (PVC options)).
         rejected \<noteq> ReadWriteOnce \<and>
         Provision P block options ad w = Some (Inl (ErrInvalidAccessMode rejected), w)))"
proof (cases "find (\<lambda>accessMode. accessMode \<noteq> ReadWriteOnce) (pvc_AccessModes (PVC options))")
  case None
  then have "\<not> (\<exists>m \<in> set (pvc_AccessModes (PVC options)). m \<noteq> ReadWriteOnce)"
    by (auto simp: find_None_iff)
  with Provision_request_valid_modes [OF None] show ?thesis by blast
next
  case (Some m)
  then have m: "m \<in> set (pvc_AccessModes (PVC options))" "m \<noteq> ReadWriteOnce"
    by (auto simp: find_Some_iff)
  from Provision_request_invalid_mode [OF Some]
  have r: "Provision_request P block options ad w = (Inl (ErrInvalidAccessMode m), w)" .
  then have "Provision P block options ad w = Some (Inl (ErrInvalidAccessMode m), w)"
    by (rule Provision_request_failed)
  with r m show ?thesis by auto
qed

text \<open>
  Witness for C1: a claim with the modes \<open>ReadWriteOnce\<close> and \<open>ReadWriteMany\<close> is rejected
  for \<open>ReadWriteMany\<close>, in the world it came in.
\<close>

theorem Provision_rejects_other_modes_witness:
  "Provision demoPkg (demoBlock (demoClient 100 (availableAfter 0) deletedOk))
     (demoOptions [ReadWriteOnce, ReadWriteMany] 42949672960) demoAd demoWorld
   = Some (Inl (ErrInvalidAccessMode ReadWriteMany), demoWorld)"
  using Provision_rejects_other_modes [of demoPkg "demoBlock (demoClient 100 (availableAfter 0) deletedOk)"
      "demoOptions [ReadWriteOnce, ReadWriteMany] 42949672960" demoAd demoWorld]
  by (simp add: demoOptions_def)

text \<open>
  Counterexample to C1 as stated: a claim with no access mode at all is not the single
  mode \<open>ReadWriteOnce\<close>, yet \<open>Provision\<close> returns no error for it, and calls the provider.
\<close>

theorem Provision_accepts_no_modes:
  "set (pvc_AccessModes (PVC (demoOptions [] 42949672960))) \<noteq> {ReadWriteOnce} \<and>
   map_option (isl \<circ> fst)
     (Provision demoPkg (demoBlock (demoClient 100 (availableAfter 0) deletedOk))
        (demoOptions [] 42949672960) demoAd demoWorld) = Some False \<and>
   map_option (length \<circ> calls \<circ> snd)
     (Provision demoPkg (demoBlock (demoClient 100 (availableAfter 0) deletedOk))
        (demoOptions [] 42949672960) demoAd demoWorld) = Some 3"
  by (simp add: eval_defs)

subsection \<open>C2: one delete call after a failed wait\<close>

text \<open>
  Claim C2. When the volume has been created and \<open>waitForVolumeAvailable\<close> ends with an
  error \<open>e\<close> (a lifecycle failure, a failed status query, or the timeout of the wait),
  \<open>Provision\<close> returns \<open>e\<close>, and among the calls of the run there is exactly one delete
  call, for the handle of the created volume. This holds for every way \<open>d\<close> in which the
  provider may answer the delete call: what the delete call returns is discarded.
\<close>

theorem Provision_deletes_once_after_failed_wait:
  assumes req: "Provision_request P block options ad w = (Inr (volumeDetails, capacity), w1)"
    and create: "CreateVolume (block_client block) (createCtx block w1) volumeDetails w1
                   = (Inr newVolume, w2)"
    and wait: "waitForVolumeAvailable block (createCtx block w1) (volume_Id newVolume)
                 (block_timeout block) (waiting w2) = Some (Some e, w3)"
  shows "\<exists>response derr w4.
           Provision P (deleting d block) options ad w = Some (Inl e, w4) \<and>
           filter is_delete (issued w w4) = [EvDeleteVolume (volume_Id newVolume) response derr]"
proof -
  let ?block = "deleting d block"
  have req': "Provision_request P ?block options ad w = (Inr (volumeDetails, capacity), w1)"
    using req by (simp add: deleting_request)
  have create': "CreateVolume (block_client ?block) (createCtx ?block w1) volumeDetails w1
                   = (Inr newVolume, w2)"
    using create by (simp add: deleting_create)
  have wait': "waitForVolumeAvailable ?block (createCtx ?block w1) (volume_Id newVolume)
                 (block_timeout ?block) (waiting w2) = Some (Some e, w3)"
    using wait by (simp add: deleting_wait)
  obtain response derr w4 where del: "DeleteVolume (block_client ?block)
      (WithTimeout (createCtx ?block w1) (Timeout (block_client ?block)) w3)
      (volume_Id newVolume) w3 = ((response, derr), w4)"
    by (metis prod.exhaust)
  have run: "Provision P ?block options ad w = Some (Inl e, w4)"
    using req' create' wait' del by (rule Provision_wait_failed)
  from Provision_request_frame [OF req] have c1: "calls w1 = calls w" by simp
  from CreateVolume_frame [OF create]
  have c2: "calls w2 = calls w1 @ [EvCreateVolume volumeDetails (Inr newVolume)]" by simp
  from waitForVolumeAvailable_frame [OF wait] obtain evs where
    c3: "calls w3 = calls (waiting w2) @ evs" and g: "gets_of (volume_Id newVolume) evs"
    by blast
  from DeleteVolume_frame [OF del]
  have c4: "calls w4 = calls w3 @ [EvDeleteVolume (volume_Id newVolume) response derr]" by simp
  have "issued w w4 = EvCreateVolume volumeDetails (Inr newVolume) # evs @
          [EvDeleteVolume (volume_Id newVolume) response derr]"
    by (rule issued_append) (simp add: c1 c2 c3 c4)
  then have "filter is_delete (issued w w4) = [EvDeleteVolume (volume_Id newVolume) response derr]"
    using gets_of_filter [OF g] by simp
  with run show ?thesis by blast
qed

text \<open>
  Witness for C2: the provider reports the volume as faulty and then fails to delete it.
  \<open>Provision\<close> returns the error of the wait, and one delete call has been made.
\<close>

theorem Provision_deletes_once_after_failed_wait_witness:
  "map_option fst
     (Provision demoPkg (deleting deleteFails (demoBlock (demoClient 100 alwaysFaulty deletedOk)))
        (demoOptions [ReadWriteOnce] 42949672960) demoAd demoWorld)
     = Some (Inl (ErrFailedToProvision ''ocid1.volume.oc1.phx.v''
                    (ErrLifecycleState VolumeLifecycleStateFaulty))) \<and>
   map_option (filter is_delete \<circ> calls \<circ> snd)
     (Provision demoPkg (deleting deleteFails (demoBlock (demoClient 100 alwaysFaulty deletedOk)))
        (demoOptions [ReadWriteOnce] 42949672960) demoAd demoWorld)
     = Some [EvDeleteVolume ''ocid1.volume.oc1.phx.v'' \<lparr>RawResponse = Some 500\<rparr>
               (Some (ErrService 500 ''InternalServerError''))]"
proof -
  let ?block = "demoBlock (demoClient 100 alwaysFaulty deletedOk)"
  let ?options = "demoOptions [ReadWriteOnce] 42949672960"
  let ?w1 = "snd (Provision_request demoPkg ?block ?options demoAd demoWorld)"
  let ?w2 = "snd (CreateVolume (block_client ?block) (createCtx ?block ?w1)
                (demoDetails 51200) ?w1)"
  let ?w3 = "snd (the (waitForVolumeAvailable ?block (createCtx ?block ?w1) (volume_Id demoVolume)
                (block_timeout ?block) (waiting ?w2)))"
  have req: "Provision_request demoPkg ?block ?options demoAd demoWorld
               = (Inr (demoDetails 51200, 53687091200), ?w1)"
    by (simp add: eval_defs alwaysFaulty_def demoDetails_def)
  have create: "CreateVolume (block_client ?block) (createCtx ?block ?w1) (demoDetails 51200) ?w1
                  = (Inr demoVolume, ?w2)"
    by (simp add: eval_defs alwaysFaulty_def demoDetails_def demoVolume_def)
  have wait: "waitForVolumeAvailable ?block (createCtx ?block ?w1) (volume_Id demoVolume)
                (block_timeout ?block) (waiting ?w2)
              = Some (Some (ErrFailedToProvision ''ocid1.volume.oc1.phx.v''
                   (ErrLifecycleState VolumeLifecycleStateFaulty)), ?w3)"
    by (simp add: eval_defs alwaysFaulty_def demoDetails_def demoVolume_def)
  from Provision_deletes_once_after_failed_wait [OF req create wait, of deleteFails] show ?thesis
    by (auto simp: eval_defs alwaysFaulty_def demoDetails_def demoVolume_def deleteFails_def
        issued_def)
qed

subsection \<open>C3: the errors of Delete\<close>

text \<open>
  Claim C3. \<open>Delete\<close> returns an error if and only if the persistent volume has no
  \<open>ociVolumeID\<close> annotation, or the delete call returns an error while the response does not
  carry the status 404 and the error is not classified as not-found by \<open>IsNotFound\<close>. With the
  annotation in place the result is \<open>nil\<close> for a 404 response and for a not-found error, and
  the error of the delete call otherwise.
\<close>

theorem Delete_error_iff:
  "(fst (Delete P block volume w) \<noteq> None \<longleftrightarrow>
      pv_Annotations volume OCIVolumeID = None \<or>
      (\<exists>volID response e w'.
         pv_Annotations volume OCIVolumeID = Some volID \<and>
         DeleteVolume (block_client block) (createCtx block (logInfo ''Deleting volume'' w))
           volID (logInfo ''Deleting volume'' w) = ((response, Some e), w') \<and>
         RawResponse response \<noteq> Some StatusNotFound \<and> \<not> IsNotFound P (Some e))) \<and>
   (\<forall>volID response derr w'.
      pv_Annotations volume OCIVolumeID = Some volID \<and>
      DeleteVolume (block_client block) (createCtx block (logInfo ''Deleting volume'' w))
        volID (logInfo ''Deleting volume'' w) = ((response, derr), w') \<longrightarrow>
      fst (Delete P block volume w) =
        (if RawResponse response = Some StatusNotFound \<or> IsNotFound P derr then None else derr))"
proof (cases "pv_Annotations volume OCIVolumeID")
  case None
  then show ?thesis by (simp add: Delete_def)
next
  case (Some volID)
  obtain response derr w' where del:
    "DeleteVolume (block_client block) (createCtx block (logInfo ''Deleting volume'' w))
       volID (logInfo ''Deleting volume'' w) = ((response, derr), w')"
    by (metis prod.exhaust)
  have "fst (Delete P block volume w) =
        (if RawResponse response = Some StatusNotFound \<or> IsNotFound P derr then None else derr)"
    using Some del by (simp add: Delete_def Let_def)
  with Some del show ?thesis by auto
qed

text \<open>
  Witness for C3: a volume without the annotation; a 404 response; a not-found service
  error without a response; and a failure of the service with status 500, which is
  returned.
\<close>

theorem Delete_error_iff_witness:
  "fst (Delete demoPkg (demoBlock (demoClient 100 alwaysProvisioning deletedOk))
          (demoPv Map.empty) demoWorld) = Some ErrNoVolumeIDAnnotation \<and>
   fst (Delete demoPkg (demoBlock (demoClient 100 alwaysProvisioning
          (\<lparr>RawResponse = Some 404\<rparr>, Some (ErrOther ''gone''))))
          (demoPv [OCIVolumeID \<mapsto> ''ocid1.volume.oc1.phx.v'']) demoWorld) = None \<and>
   fst (Delete demoPkg (demoBlock (demoClient 100 alwaysProvisioning
          (\<lparr>RawResponse = None\<rparr>, Some (ErrService 404 ''NotAuthorizedOrNotFound''))))
          (demoPv [OCIVolumeID \<mapsto> ''ocid1.volume.oc1.phx.v'']) demoWorld) = None \<and>
   fst (Delete demoPkg (demoBlock (demoClient 100 alwaysProvisioning
          (\<lparr>RawResponse = Some 500\<rparr>, Some (ErrService 500 ''InternalServerError''))))
          (demoPv [OCIVolumeID \<mapsto> ''ocid1.volume.oc1.phx.v'']) demoWorld)
     = Some (ErrService 500 ''InternalServerError'')"
  using
    Delete_error_iff [of demoPkg "demoBlock (demoClient 100 alwaysProvisioning deletedOk)"
      "demoPv Map.empty" demoWorld]
    Delete_error_iff [of demoPkg "demoBlock (demoClient 100 alwaysProvisioning
          (\<lparr>RawResponse = Some 404\<rparr>, Some (ErrOther ''gone'')))"
      "demoPv [OCIVolumeID \<mapsto> ''ocid1.volume.oc1.phx.v'']" demoWorld]
  by (simp add: Delete_def demoPv_def Provision_pv_def eval_defs)

subsection \<open>C4: rounding up to allocation units\<close>

text \<open>
  Claim C4, as amended. For every capacity \<open>C \<ge> 0\<close> and every unit size \<open>U > 0\<close> for which
  \<open>C + U - 1\<close> does not exceed the largest \<open>int64\<close>, \<open>roundUpSize C U\<close> returns a number of
  units with \<open>units * U \<ge> C\<close> and \<open>units * U < C + U\<close>, and it returns \<open>0\<close> for \<open>C = 0\<close>.
\<close>

theorem roundUpSize_bounds:
  assumes "0 \<le> C" and "0 < U" and "C + U - 1 < 2 ^ 63"
  shows "\<exists>units. roundUpSize C U = Some units \<and> C \<le> units * U \<and> units * U < C + U \<and>
           (C = 0 \<longrightarrow> units = 0)"
proof -
  have "roundUpSize C U = Some ((C + U - 1) div U)"
    using assms by (rule roundUpSize_exact)
  moreover have "C = 0 \<longrightarrow> (C + U - 1) div U = 0"
    using assms by (simp add: div_pos_pos_trivial)
  ultimately show ?thesis
    using ceil_bounds [OF assms(2), of C] by simp
qed

text \<open>
  Witness for C4: one byte more than 40 GiB takes 40961 units of 1 MiB, and no byte takes
  no unit.
\<close>

theorem roundUpSize_bounds_witness:
  "(0::int) \<le> 42949672961 \<and> (0::int) < 1048576 \<and> 42949672961 + 1048576 - 1 < (2::int) ^ 63 \<and>
   (\<exists>units. roundUpSize 42949672961 1048576 = Some units \<and> units = 40961 \<and>
      42949672961 \<le> units * 1048576 \<and> units * 1048576 < 42949672961 + 1048576) \<and>
   (\<exists>units. roundUpSize 0 1048576 = Some units \<and> units = 0)"
  using roundUpSize_bounds [of 42949672961 1048576] roundUpSize_bounds [of 0 1048576]
  by (simp add: roundUpSize_def wrap64_def signed_divide_int_def)

text \<open>
  Counterexample to C4 as stated: for the largest \<open>int64\<close> capacity and the unit of 1 MiB
  the sum wraps around, the number of units is negative, and the units do not cover the
  capacity.
\<close>

theorem roundUpSize_overflow:
  "is_int64 9223372036854775807 \<and> is_int64 1048576 \<and>
   roundUpSize 9223372036854775807 1048576 = Some (- 8796093022207) \<and>
   \<not> (9223372036854775807 \<le> (- 8796093022207) * (1048576 :: int))"
  by (simp add: roundUpSize_def wrap64_def is_int64_def signed_divide_int_def)

subsection \<open>C5: the minimum size\<close>

text \<open>
  Claim C5. Let the requested capacity \<open>C\<close> be below the minimum of the provisioner, in a
  request that passes the validation. If rounding is enabled for the provisioner and for
  the request, the run works with the minimum: the create request asks for the minimum in
  MiB, a returned persistent volume reports the minimum, and the run logs the rounding
  warning, once, instead of failing. If rounding is disabled at either level, the run
  works with \<open>C\<close> and logs no warning.
\<close>

theorem Provision_minimum_size:
  assumes modes: "set (pvc_AccessModes (PVC options)) \<subseteq> {ReadWriteOnce}"
    and req: "pvc_Requests (PVC options) ResourceStorage = Some C"
    and below: "C < block_minVolumeSize block"
    and run: "Provision P block options ad w = Some (res, w')"
  shows "(volumeRoundingEnabled (Parameters options) \<and> block_volumeRoundingEnabled block \<longrightarrow>
            createdWith w w' res (block_minVolumeSize block) \<and>
            filter is_warning (written w w') = [(Warn, roundingMessage)]) \<and>
         (\<not> (volumeRoundingEnabled (Parameters options) \<and> block_volumeRoundingEnabled block) \<longrightarrow>
            createdWith w w' res C \<and> filter is_warning (written w w') = [])"
proof -
  let ?eff = "effectiveCapacity block options C"
  from Provision_request_runs [OF modes req] obtain volumeDetails w1 ls where
    r: "Provision_request P block options ad w = (Inr (volumeDetails, ?eff), w1)"
    and l: "logs w1 = logs w @ ls"
      "filter is_warning ls = (if roundsUp block options C then [(Warn, roundingMessage)] else [])"
    by blast
  from Provision_request_ok [OF r]
  have size: "roundUpSize (Value ?eff) (1024 * 1024) = Some (SizeInMBs volumeDetails)"
    by blast
  from Provision_after_request [OF r run] obtain a rest ls' where
    e: "issued w w' = EvCreateVolume volumeDetails a # rest" "filter is_create rest = []"
      "logs w' = logs w1 @ ls'" "filter is_warning ls' = []"
      "\<forall>pv. res = Inr pv \<longrightarrow> pv_Capacity pv ResourceStorage = Some ?eff"
    by blast
  have c: "createdWith w w' res ?eff"
    unfolding createdWith_def using e size by blast
  have "written w w' = ls @ ls'"
    using l e by (simp add: written_def)
  then have f: "filter is_warning (written w w') =
      (if roundsUp block options C then [(Warn, roundingMessage)] else [])"
    using l e by simp
  show ?thesis
    using c f below by (auto simp: effectiveCapacity_def roundsUp_def)
qed

text \<open>
  Witness for C5: 40 GiB requested against a minimum of 50 GiB. With rounding on, the run
  works with 50 GiB and warns; with \<open>volumeRoundingUpEnabled\<close> set to false in the
  parameters, it works with 40 GiB.
\<close>

theorem Provision_minimum_size_witness:
  "(case Provision demoPkg (demoBlock (demoClient 100 (availableAfter 0) deletedOk))
           (demoOptions [ReadWriteOnce] 42949672960) demoAd demoWorld of
      None \<Rightarrow> False
    | Some (res, w') \<Rightarrow>
        createdWith demoWorld w' res 53687091200 \<and>
        filter is_warning (written demoWorld w') = [(Warn, roundingMessage)]) \<and>
   (case Provision demoPkg (demoBlock (demoClient 100 (availableAfter 0) deletedOk))
           ((demoOptions [ReadWriteOnce] 42949672960)
              \<lparr>Parameters := [volumeRoundingUpEnabled \<mapsto> ''false'']\<rparr>) demoAd demoWorld of
      None \<Rightarrow> False
    | Some (res, w') \<Rightarrow> createdWith demoWorld w' res 42949672960)"
proof -
  let ?block = "demoBlock (demoClient 100 (availableAfter 0) deletedOk)"
  let ?on = "demoOptions [ReadWriteOnce] 42949672960"
  let ?off = "?on\<lparr>Parameters := [volumeRoundingUpEnabled \<mapsto> ''false'']\<rparr>"
  have modes: "set (pvc_AccessModes (PVC ?on)) \<subseteq> {ReadWriteOnce}"
    "set (pvc_AccessModes (PVC ?off)) \<subseteq> {ReadWriteOnce}"
    by (simp_all add: demoOptions_def)
  have req: "pvc_Requests (PVC ?on) ResourceStorage = Some 42949672960"
    "pvc_Requests (PVC ?off) ResourceStorage = Some 42949672960"
    by (simp_all add: demoOptions_def)
  have below: "42949672960 < block_minVolumeSize ?block"
    by (simp add: demoBlock_def)
  have on: "volumeRoundingEnabled (Parameters ?on) \<and> block_volumeRoundingEnabled ?block"
    by (simp add: demoOptions_def demoBlock_def volumeRoundingEnabled_def)
  have off: "\<not> (volumeRoundingEnabled (Parameters ?off) \<and> block_volumeRoundingEnabled ?block)"
    by (simp add: volumeRoundingEnabled_def ParseBool_def)
  have m: "block_minVolumeSize ?block = 53687091200"
    by (simp add: demoBlock_def)
  obtain res1 w1 where run1: "Provision demoPkg ?block ?on demoAd demoWorld = Some (res1, w1)"
    using Provision_returns by blast
  obtain res2 w2 where run2: "Provision demoPkg ?block ?off demoAd demoWorld = Some (res2, w2)"
    using Provision_returns by blast
  from Provision_minimum_size [OF modes(1) req(1) below run1] on m
    Provision_minimum_size [OF modes(2) req(2) below run2] off
  show ?thesis
    unfolding run1 run2 by simp
qed

subsection \<open>C6: the outcome of one status query\<close>

text \<open>
  Claim C6. Let \<open>r\<close> be what the status query of one poll returns. The poll is ready exactly
  when \<open>r\<close> is the state available; it fails with the lifecycle error of a reported state
  exactly when that state is faulty, terminated or terminating; it is not yet ready
  exactly when \<open>r\<close> is any other state; and an error of the query itself is the error of the
  poll. The loop follows the poll, at its first evaluation and at every later one: an
  error ends it at once, in the world the query left, as the error "failed to provision
  volume" around the error of the poll; ready ends it with success; not yet ready polls
  again at the next tick, unless the timer of the wait has fired.
\<close>

theorem isVolumeReady_outcomes:
  assumes "GetVolume (block_client block) (WithTimeout ctx (Timeout (block_client block)) w)
             volumeID w = (r, w1)"
  shows
   "(fst (isVolumeReady block ctx volumeID w) = Inr True
       \<longleftrightarrow> r = Inr VolumeLifecycleStateAvailable) \<and>
    (\<forall>state. r = Inr state \<longrightarrow>
       (fst (isVolumeReady block ctx volumeID w) = Inl (ErrLifecycleState state)
          \<longleftrightarrow> state \<in> {VolumeLifecycleStateFaulty, VolumeLifecycleStateTerminated,
                        VolumeLifecycleStateTerminating})) \<and>
    (fst (isVolumeReady block ctx volumeID w) = Inr False
       \<longleftrightarrow> (\<exists>state. r = Inr state \<and>
              state \<notin> {VolumeLifecycleStateAvailable, VolumeLifecycleStateFaulty,
                        VolumeLifecycleStateTerminated, VolumeLifecycleStateTerminating})) \<and>
    (\<forall>e. r = Inl e \<longrightarrow> fst (isVolumeReady block ctx volumeID w) = Inl e) \<and>
    snd (isVolumeReady block ctx volumeID w) = w1 \<and>
    waitForVolumeAvailable block ctx volumeID timeout w =
      (case fst (isVolumeReady block ctx volumeID w) of
         Inl e \<Rightarrow> Some (Some (ErrFailedToProvision volumeID e), w1)
       | Inr True \<Rightarrow> Some (None, w1)
       | Inr False \<Rightarrow>
           WaitFor 5 (if timeout = 0 then None else Some (now w1 + timeout))
             (pollCondition block ctx volumeID) (now w1) w1) \<and>
    (\<forall>w0 stop prev. w = sleepUntil (wakeTime stop (nextTick 5 prev (now w0))) w0 \<longrightarrow>
       WaitFor 5 stop (pollCondition block ctx volumeID) prev w0 =
         (case fst (isVolumeReady block ctx volumeID w) of
            Inl e \<Rightarrow> Some (Some (ErrFailedToProvision volumeID e), w1)
          | Inr True \<Rightarrow> Some (None, w1)
          | Inr False \<Rightarrow>
              if closedAt stop (nextTick 5 prev (now w0)) then Some (Some ErrWaitTimeout, w1)
              else WaitFor 5 stop (pollCondition block ctx volumeID)
                     (nextTick 5 prev (now w0)) w1))"
proof -
  have q: "isVolumeReady block ctx volumeID w = (classify r, w1)"
    using assms by (rule isVolumeReady_query)
  have c: "pollCondition block ctx volumeID w =
             (case classify r of Inl e \<Rightarrow> Inl (ErrFailedToProvision volumeID e) | Inr b \<Rightarrow> Inr b, w1)"
    by (simp add: pollCondition_def q split: sum.splits)
  have 1: "classify r = Inr True \<longleftrightarrow> r = Inr VolumeLifecycleStateAvailable"
    by (rule classify_ready)
  have 2: "\<forall>state. r = Inr state \<longrightarrow>
       (classify r = Inl (ErrLifecycleState state)
          \<longleftrightarrow> state \<in> {VolumeLifecycleStateFaulty, VolumeLifecycleStateTerminated,
                        VolumeLifecycleStateTerminating})"
    by (auto simp: classify_def)
  have 3: "classify r = Inr False
       \<longleftrightarrow> (\<exists>state. r = Inr state \<and>
              state \<notin> {VolumeLifecycleStateAvailable, VolumeLifecycleStateFaulty,
                        VolumeLifecycleStateTerminated, VolumeLifecycleStateTerminating})"
    by (auto simp: classify_def split: sum.splits)
  have 4: "\<forall>e. r = Inl e \<longrightarrow> classify r = Inl e"
    by (simp add: classify_def)
  have 5: "waitForVolumeAvailable block ctx volumeID timeout w =
      (case classify r of
         Inl e \<Rightarrow> Some (Some (ErrFailedToProvision volumeID e), w1)
       | Inr True \<Rightarrow> Some (None, w1)
       | Inr False \<Rightarrow>
           WaitFor 5 (if timeout = 0 then None else Some (now w1 + timeout))
             (pollCondition block ctx volumeID) (now w1) w1)"
    by (simp add: waitForVolumeAvailable_def PollImmediate_def c split: sum.splits bool.splits)
  have 6: "\<forall>w0 stop prev. w = sleepUntil (wakeTime stop (nextTick 5 prev (now w0))) w0 \<longrightarrow>
       WaitFor 5 stop (pollCondition block ctx volumeID) prev w0 =
         (case classify r of
            Inl e \<Rightarrow> Some (Some (ErrFailedToProvision volumeID e), w1)
          | Inr True \<Rightarrow> Some (None, w1)
          | Inr False \<Rightarrow>
              if closedAt stop (nextTick 5 prev (now w0)) then Some (Some ErrWaitTimeout, w1)
              else WaitFor 5 stop (pollCondition block ctx volumeID)
                     (nextTick 5 prev (now w0)) w1)"
  proof (intro allI impI)
    fix w0 stop prev
    assume w: "w = sleepUntil (wakeTime stop (nextTick 5 prev (now w0))) w0"
    let ?cond = "pollCondition block ctx volumeID"
    let ?tick = "nextTick 5 prev (now w0)"
    have "WaitFor 5 stop ?cond prev w0 =
            (case ?cond w of
               (Inl err, w') \<Rightarrow> Some (Some err, w')
             | (Inr ok, w') \<Rightarrow>
                 if ok then Some (None, w')
                 else if closedAt stop ?tick then Some (Some ErrWaitTimeout, w')
                 else WaitFor 5 stop ?cond ?tick w')"
      unfolding w by (subst WaitFor.simps) (simp add: Let_def)
    then show "WaitFor 5 stop ?cond prev w0 =
         (case classify r of
            Inl e \<Rightarrow> Some (Some (ErrFailedToProvision volumeID e), w1)
          | Inr True \<Rightarrow> Some (None, w1)
          | Inr False \<Rightarrow>
              if closedAt stop ?tick then Some (Some ErrWaitTimeout, w1)
              else WaitFor 5 stop ?cond ?tick w1)"
      by (simp add: c split: sum.splits bool.splits)
  qed
  show ?thesis
    unfolding q fst_conv snd_conv using 1 2 3 4 5 6 by blast
qed

text \<open>
  Witness for C6: the provider reports the volume as faulty at the first query. The poll
  fails with the lifecycle error, the wait ends with it, and one query has been made.
\<close>

theorem isVolumeReady_outcomes_witness:
  "fst (isVolumeReady (demoBlock (demoClient 100 alwaysFaulty deletedOk)) (Some 50)
          ''ocid1.volume.oc1.phx.v'' demoWorld)
     = Inl (ErrLifecycleState VolumeLifecycleStateFaulty) \<and>
   map_option fst
     (waitForVolumeAvailable (demoBlock (demoClient 100 alwaysFaulty deletedOk)) (Some 50)
        ''ocid1.volume.oc1.phx.v'' 60 demoWorld)
     = Some (Some (ErrFailedToProvision ''ocid1.volume.oc1.phx.v''
                     (ErrLifecycleState VolumeLifecycleStateFaulty))) \<and>
   map_option (calls \<circ> snd)
     (waitForVolumeAvailable (demoBlock (demoClient 100 alwaysFaulty deletedOk)) (Some 50)
        ''ocid1.volume.oc1.phx.v'' 60 demoWorld)
     = Some [EvGetVolume ''ocid1.volume.oc1.phx.v'' (Inr VolumeLifecycleStateFaulty)]"
proof -
  let ?block = "demoBlock (demoClient 100 alwaysFaulty deletedOk)"
  let ?w1 = "snd (GetVolume (block_client ?block)
      (WithTimeout (Some 50) (Timeout (block_client ?block)) demoWorld)
      ''ocid1.volume.oc1.phx.v'' demoWorld)"
  have g: "GetVolume (block_client ?block)
      (WithTimeout (Some 50) (Timeout (block_client ?block)) demoWorld)
      ''ocid1.volume.oc1.phx.v'' demoWorld = (Inr VolumeLifecycleStateFaulty, ?w1)"
    by (simp add: eval_defs more_defs)
  have c: "calls ?w1 = [EvGetVolume ''ocid1.volume.oc1.phx.v'' (Inr VolumeLifecycleStateFaulty)]"
    by (simp add: eval_defs more_defs)
  from isVolumeReady_outcomes [OF g, of 60] c show ?thesis
    by simp
qed

subsection \<open>C7: the deadlines of the wait\<close>

text \<open>
  Claim C7 says that only the overall timeout of the provisioner ends the polling. The
  code hands the deadline of the create call on to the wait, so every status query made
  after that deadline fails at once. Here the client's timeout is 30 seconds, the timeout
  of the provisioner is 60 seconds, and the provider reports the volume as provisioning:
  six status queries are answered (they are made at the seconds 1, 7, 12, 17, 22 and 27),
  the seventh, made at the tick of second 32, ends with \<open>context.DeadlineExceeded\<close>,
  and \<open>Provision\<close> returns at second 32 with the error of that query, not with the
  timeout of the wait. (Under a client timeout of 100 seconds the same provider is polled
  until the timer of the wait has fired, see \<open>Provision_wait_times_out\<close>.)
\<close>

theorem Provision_wait_ends_at_create_deadline:
  "Timeout (block_client (demoBlock (demoClient 30 alwaysProvisioning deletedOk))) = 30 \<and>
   block_timeout (demoBlock (demoClient 30 alwaysProvisioning deletedOk)) = 60 \<and>
   map_option fst
     (Provision demoPkg (demoBlock (demoClient 30 alwaysProvisioning deletedOk))
        (demoOptions [ReadWriteOnce] 42949672960) demoAd demoWorld)
     = Some (Inl (ErrFailedToProvision ''ocid1.volume.oc1.phx.v'' ErrDeadlineExceeded)) \<and>
   map_option (filter is_get \<circ> calls \<circ> snd)
     (Provision demoPkg (demoBlock (demoClient 30 alwaysProvisioning deletedOk))
        (demoOptions [ReadWriteOnce] 42949672960) demoAd demoWorld)
     = Some [EvGetVolume ''ocid1.volume.oc1.phx.v'' (Inr VolumeLifecycleStateProvisioning),
             EvGetVolume ''ocid1.volume.oc1.phx.v'' (Inr VolumeLifecycleStateProvisioning),
             EvGetVolume ''ocid1.volume.oc1.phx.v'' (Inr VolumeLifecycleStateProvisioning),
             EvGetVolume ''ocid1.volume.oc1.phx.v'' (Inr VolumeLifecycleStateProvisioning),
             EvGetVolume ''ocid1.volume.oc1.phx.v'' (Inr VolumeLifecycleStateProvisioning),
             EvGetVolume ''ocid1.volume.oc1.phx.v'' (Inr VolumeLifecycleStateProvisioning),
             EvGetVolume ''ocid1.volume.oc1.phx.v'' (Inl ErrDeadlineExceeded)] \<and>
   map_option (now \<circ> snd)
     (Provision demoPkg (demoBlock (demoClient 30 alwaysProvisioning deletedOk))
        (demoOptions [ReadWriteOnce] 42949672960) demoAd demoWorld) = Some 32"
  by (simp add: eval_defs)

subsection \<open>C8: the region\<close>

text \<open>
  Claim C8. After the volume has been created and has become available, the region is
  the value of \<open>OCI_SHORT_REGION\<close> when the environment has it, and then the instance
  metadata is not asked; otherwise it is the region of the instance metadata. If the
  metadata lookup fails, \<open>Provision\<close> returns that error in the world the lookup left: the
  lookup is the only call after the wait, no delete call has been made in the run, and the
  log and the environment are as they were after the wait. The region ends up under the
  region label of the persistent volume.
\<close>

theorem Provision_region:
  assumes req: "Provision_request P block options ad w = (Inr (volumeDetails, capacity), w1)"
    and create: "CreateVolume (block_client block) (createCtx block w1) volumeDetails w1
                   = (Inr newVolume, w2)"
    and wait: "waitForVolumeAvailable block (createCtx block w1) (volume_Id newVolume)
                 (block_timeout block) (waiting w2) = Some (None, w3)"
  shows "(\<forall>region. LookupEnv ''OCI_SHORT_REGION'' w = Some region \<longrightarrow>
            Provision P block options ad w =
              Some (Inr (Provision_pv P options ad capacity newVolume (resolveFSType options) region),
               w3)) \<and>
         (LookupEnv ''OCI_SHORT_REGION'' w = None \<longrightarrow>
            (\<forall>metadata w4. metadata_Get block w3 = (Inr metadata, w4) \<longrightarrow>
               Provision P block options ad w =
                 Some (Inr (Provision_pv P options ad capacity newVolume (resolveFSType options)
                         (Region metadata)), w4)) \<and>
            (\<forall>e w4. metadata_Get block w3 = (Inl e, w4) \<longrightarrow>
               Provision P block options ad w = Some (Inl e, w4) \<and>
               issued w3 w4 = [EvMetadataGet (Inl e)] \<and>
               filter is_delete (issued w w4) = [] \<and>
               logs w4 = logs w3 \<and> environ w4 = environ w3)) \<and>
         (\<forall>region. LabelZoneRegion P \<noteq> LabelZoneFailureDomain P \<longrightarrow>
            pv_Labels (Provision_pv P options ad capacity newVolume (resolveFSType options) region)
              (LabelZoneRegion P) = Some region)"
proof -
  from Provision_request_frame [OF req] have f1: "calls w1 = calls w" "environ w1 = environ w"
    by simp_all
  from CreateVolume_frame [OF create]
  have f2: "calls w2 = calls w1 @ [EvCreateVolume volumeDetails (Inr newVolume)]"
    "environ w2 = environ w1" by simp_all
  from waitForVolumeAvailable_frame [OF wait] obtain evs where
    f3: "calls w3 = calls w2 @ evs" "gets_of (volume_Id newVolume) evs" "environ w3 = environ w2"
    by auto
  have env: "LookupEnv ''OCI_SHORT_REGION'' w3 = LookupEnv ''OCI_SHORT_REGION'' w"
    by (simp add: LookupEnv_def f1 f2 f3)
  have a: "\<forall>region. LookupEnv ''OCI_SHORT_REGION'' w = Some region \<longrightarrow>
            Provision P block options ad w =
              Some (Inr (Provision_pv P options ad capacity newVolume (resolveFSType options) region),
               w3)"
    using Provision_env_region [OF req create wait] env by simp
  have b: "\<forall>metadata w4. LookupEnv ''OCI_SHORT_REGION'' w = None \<and>
               metadata_Get block w3 = (Inr metadata, w4) \<longrightarrow>
               Provision P block options ad w =
                 Some (Inr (Provision_pv P options ad capacity newVolume (resolveFSType options)
                         (Region metadata)), w4)"
    using Provision_metadata_region [OF req create wait] env by simp
  have c: "\<forall>e w4. LookupEnv ''OCI_SHORT_REGION'' w = None \<and>
               metadata_Get block w3 = (Inl e, w4) \<longrightarrow>
               Provision P block options ad w = Some (Inl e, w4) \<and>
               issued w3 w4 = [EvMetadataGet (Inl e)] \<and>
               filter is_delete (issued w w4) = [] \<and>
               logs w4 = logs w3 \<and> environ w4 = environ w3"
  proof (intro allI impI, elim conjE)
    fix e w4
    assume n: "LookupEnv ''OCI_SHORT_REGION'' w = None"
      and m: "metadata_Get block w3 = (Inl e, w4)"
    from metadata_Get_frame [OF m]
    have f4: "calls w4 = calls w3 @ [EvMetadataGet (Inl e)]" "logs w4 = logs w3"
      "environ w4 = environ w3" by simp_all
    have "issued w w4 = EvCreateVolume volumeDetails (Inr newVolume) # evs @ [EvMetadataGet (Inl e)]"
      by (rule issued_append) (simp add: f1 f2 f3 f4)
    then have "filter is_delete (issued w w4) = []"
      using gets_of_filter [OF f3(2)] by simp
    moreover have "issued w3 w4 = [EvMetadataGet (Inl e)]"
      by (rule issued_append) (simp add: f4)
    moreover have "Provision P block options ad w = Some (Inl e, w4)"
      using Provision_metadata_failed [OF req create wait _ m] env n by simp
    ultimately show "Provision P block options ad w = Some (Inl e, w4) \<and>
               issued w3 w4 = [EvMetadataGet (Inl e)] \<and>
               filter is_delete (issued w w4) = [] \<and>
               logs w4 = logs w3 \<and> environ w4 = environ w3"
      using f4 by simp
  qed
  have d: "\<forall>region. LabelZoneRegion P \<noteq> LabelZoneFailureDomain P \<longrightarrow>
            pv_Labels (Provision_pv P options ad capacity newVolume (resolveFSType options) region)
              (LabelZoneRegion P) = Some region"
    by (simp add: Provision_pv_def)
  show ?thesis
    using a b c d by blast
qed

text \<open>
  Witness for C8: the volume is available at once, the environment has no override, and
  the metadata service fails. \<open>Provision\<close> returns the error of the metadata service and
  has made no delete call.
\<close>

theorem Provision_region_witness:
  "map_option fst
     (Provision demoPkg
        ((demoBlock (demoClient 100 (availableAfter 0) deletedOk))
           \<lparr>block_metadata := metadataFails\<rparr>)
        (demoOptions [ReadWriteOnce] 42949672960) demoAd demoWorld)
     = Some (Inl (ErrOther ''metadata service unavailable'')) \<and>
   map_option (filter is_delete \<circ> calls \<circ> snd)
     (Provision demoPkg
        ((demoBlock (demoClient 100 (availableAfter 0) deletedOk))
           \<lparr>block_metadata := metadataFails\<rparr>)
        (demoOptions [ReadWriteOnce] 42949672960) demoAd demoWorld) = Some []"
proof -
  let ?block = "(demoBlock (demoClient 100 (availableAfter 0) deletedOk))
                  \<lparr>block_metadata := metadataFails\<rparr>"
  let ?options = "demoOptions [ReadWriteOnce] 42949672960"
  let ?w1 = "snd (Provision_request demoPkg ?block ?options demoAd demoWorld)"
  let ?w2 = "snd (CreateVolume (block_client ?block) (createCtx ?block ?w1)
                (demoDetails 51200) ?w1)"
  let ?w3 = "snd (the (waitForVolumeAvailable ?block (createCtx ?block ?w1) (volume_Id demoVolume)
                (block_timeout ?block) (waiting ?w2)))"
  let ?w4 = "snd (metadata_Get ?block ?w3)"
  have req: "Provision_request demoPkg ?block ?options demoAd demoWorld
               = (Inr (demoDetails 51200, 53687091200), ?w1)"
    by (simp add: eval_defs more_defs)
  have create: "CreateVolume (block_client ?block) (createCtx ?block ?w1) (demoDetails 51200) ?w1
                  = (Inr demoVolume, ?w2)"
    by (simp add: eval_defs more_defs)
  have wait: "waitForVolumeAvailable ?block (createCtx ?block ?w1) (volume_Id demoVolume)
                (block_timeout ?block) (waiting ?w2) = Some (None, ?w3)"
    by (simp add: eval_defs more_defs)
  have env: "LookupEnv ''OCI_SHORT_REGION'' demoWorld = None"
    by (simp add: LookupEnv_def demoWorld_def)
  have meta: "metadata_Get ?block ?w3 = (Inl (ErrOther ''metadata service unavailable''), ?w4)"
    by (simp add: eval_defs more_defs)
  from Provision_region [OF req create wait] env meta
  have "Provision demoPkg ?block ?options demoAd demoWorld
          = Some (Inl (ErrOther ''metadata service unavailable''), ?w4) \<and>
        filter is_delete (issued demoWorld ?w4) = []"
    by blast
  then show ?thesis
    by (simp add: issued_def demoWorld_def)
qed

subsection \<open>C9: the volume behind a returned persistent volume\<close>

text \<open>
  Claim C9, as amended. When \<open>Provision\<close> returns a persistent volume, the run has
  created a volume and then waited for it with success: the wait has made status queries
  for the handle of the volume, and the last of them reported the state available; no
  delete call and no further status query follows. Under a positive timeout that last
  query was answered no later than the timeout and three timeouts of the client after the
  wait began. The persistent volume carries the handle as its name and as its
  \<open>ociVolumeID\<close> annotation, and its capacity is the effective capacity of the request.
\<close>

theorem Provision_volume_was_available:
  assumes run: "Provision P block options ad w = Some (Inr pv, w')"
  shows "\<exists>volumeDetails capacity w1 newVolume w2 w3 polls rest requested.
     Provision_request P block options ad w = (Inr (volumeDetails, capacity), w1) \<and>
     CreateVolume (block_client block) (createCtx block w1) volumeDetails w1
       = (Inr newVolume, w2) \<and>
     waitForVolumeAvailable block (createCtx block w1) (volume_Id newVolume)
       (block_timeout block) (waiting w2) = Some (None, w3) \<and>
     issued w2 w3 = polls \<and>
     issued w w' = EvCreateVolume volumeDetails (Inr newVolume) # polls @ rest \<and>
     gets_of (volume_Id newVolume) polls \<and> polls \<noteq> [] \<and>
     last polls = EvGetVolume (volume_Id newVolume) (Inr VolumeLifecycleStateAvailable) \<and>
     (0 < block_timeout block \<longrightarrow>
        now w3 \<le> now w2 + block_timeout block + 3 * Timeout (block_client block)) \<and>
     filter is_get rest = [] \<and> filter is_delete rest = [] \<and>
     pv_Name pv = volume_Id newVolume \<and>
     pv_Annotations pv OCIVolumeID = Some (volume_Id newVolume) \<and>
     pvc_Requests (PVC options) ResourceStorage = Some requested \<and>
     pv_Capacity pv ResourceStorage = Some (effectiveCapacity block options requested)"
  using run
proof (cases rule: Provision_cases)
  case (env_region volumeDetails capacity w1 newVolume w2 region)
  from Provision_request_ok [OF env_region(1)] obtain requested where
    q: "pvc_Requests (PVC options) ResourceStorage = Some requested"
       "capacity = effectiveCapacity block options requested" by blast
  from waitForVolumeAvailable_frame [OF env_region(3)] obtain evs where
    evs: "calls w' = calls w2 @ evs" "gets_of (volume_Id newVolume) evs" "evs \<noteq> []"
      "last evs = EvGetVolume (volume_Id newVolume) (Inr VolumeLifecycleStateAvailable)"
    by auto
  from waitForVolumeAvailable_time [OF env_region(3)]
  have t: "0 < block_timeout block \<longrightarrow>
        now w' \<le> now w2 + block_timeout block + 3 * Timeout (block_client block)"
    by simp
  from Provision_request_frame [OF env_region(1)] CreateVolume_frame [OF env_region(2)] evs
  have i: "issued w w' = EvCreateVolume volumeDetails (Inr newVolume) # evs @ []"
    "issued w2 w' = evs"
    by (simp_all add: issued_def)
  show ?thesis
    using env_region(1,2,3) i evs(2,3,4) t q env_region(5)
    by (intro exI [of _ volumeDetails] exI [of _ capacity] exI [of _ w1] exI [of _ newVolume]
        exI [of _ w2] exI [of _ w'] exI [of _ evs] exI [of _ "[]"] exI [of _ requested])
       (simp add: Provision_pv_def)
next
  case (metadata_region volumeDetails capacity w1 newVolume w2 w3 metadata)
  from Provision_request_ok [OF metadata_region(1)] obtain requested where
    q: "pvc_Requests (PVC options) ResourceStorage = Some requested"
       "capacity = effectiveCapacity block options requested" by blast
  from waitForVolumeAvailable_frame [OF metadata_region(3)] obtain evs where
    evs: "calls w3 = calls w2 @ evs" "gets_of (volume_Id newVolume) evs" "evs \<noteq> []"
      "last evs = EvGetVolume (volume_Id newVolume) (Inr VolumeLifecycleStateAvailable)"
    by auto
  from waitForVolumeAvailable_time [OF metadata_region(3)]
  have t: "0 < block_timeout block \<longrightarrow>
        now w3 \<le> now w2 + block_timeout block + 3 * Timeout (block_client block)"
    by simp
  from Provision_request_frame [OF metadata_region(1)] CreateVolume_frame [OF metadata_region(2)]
    metadata_Get_frame [OF metadata_region(5)] evs
  have i: "issued w w' = EvCreateVolume volumeDetails (Inr newVolume) # evs @
          [EvMetadataGet (Inr metadata)]"
    "issued w2 w3 = evs"
    by (simp_all add: issued_def)
  show ?thesis
    using metadata_region(1,2,3) i evs(2,3,4) t q metadata_region(6)
    by (intro exI [of _ volumeDetails] exI [of _ capacity] exI [of _ w1] exI [of _ newVolume]
        exI [of _ w2] exI [of _ w3] exI [of _ evs] exI [of _ "[EvMetadataGet (Inr metadata)]"]
        exI [of _ requested])
       (simp add: Provision_pv_def)
qed simp_all

text \<open>
  Witness for C9: the volume becomes available ten seconds into the run. The persistent
  volume returned carries the handle of the volume and the capacity of 50 GiB, and a
  status query has reported the state available.
\<close>

theorem Provision_volume_was_available_witness:
  "\<exists>pv w'. Provision demoPkg (demoBlock (demoClient 100 (availableAfter 10) deletedOk))
              (demoOptions [ReadWriteOnce] 42949672960) demoAd demoWorld = Some (Inr pv, w') \<and>
     pv_Name pv = ''ocid1.volume.oc1.phx.v'' \<and>
     pv_Annotations pv OCIVolumeID = Some ''ocid1.volume.oc1.phx.v'' \<and>
     pv_Capacity pv ResourceStorage = Some 53687091200 \<and>
     EvGetVolume ''ocid1.volume.oc1.phx.v'' (Inr VolumeLifecycleStateAvailable) \<in> set (calls w')"
proof -
  let ?block = "demoBlock (demoClient 100 (availableAfter 10) deletedOk)"
  let ?options = "demoOptions [ReadWriteOnce] 42949672960"
  let ?run = "Provision demoPkg ?block ?options demoAd demoWorld"
  let ?pv = "Provision_pv demoPkg ?options demoAd 53687091200 demoVolume ''ext4'' ''phx''"
  let ?w' = "snd (the ?run)"
  have run: "?run = Some (Inr ?pv, ?w')"
    by (simp add: eval_defs more_defs)
  from Provision_volume_was_available [OF run] obtain volumeDetails newVolume polls rest requested where
    c: "issued demoWorld ?w' = EvCreateVolume volumeDetails (Inr newVolume) # polls @ rest"
      "polls \<noteq> []"
      "last polls = EvGetVolume (volume_Id newVolume) (Inr VolumeLifecycleStateAvailable)"
      "pv_Name ?pv = volume_Id newVolume"
      "pv_Annotations ?pv OCIVolumeID = Some (volume_Id newVolume)"
      "pvc_Requests (PVC ?options) ResourceStorage = Some requested"
      "pv_Capacity ?pv ResourceStorage = Some (effectiveCapacity ?block ?options requested)"
    by blast
  have n: "volume_Id newVolume = ''ocid1.volume.oc1.phx.v''"
    using c(4) by (simp add: Provision_pv_def demoVolume_def)
  have "last polls \<in> set polls" using c(2) by simp
  then have "EvGetVolume ''ocid1.volume.oc1.phx.v'' (Inr VolumeLifecycleStateAvailable)
      \<in> set (issued demoWorld ?w')"
    using c(1,3) n by simp
  then have "EvGetVolume ''ocid1.volume.oc1.phx.v'' (Inr VolumeLifecycleStateAvailable)
      \<in> set (calls ?w')"
    by (simp add: issued_def demoWorld_def)
  moreover have "pv_Capacity ?pv ResourceStorage = Some 53687091200"
    by (simp add: Provision_pv_def)
  ultimately show ?thesis
    using run c(4,5) n by (intro exI [of _ ?pv] exI [of _ ?w']) simp
qed

text \<open>
  Counterexample to C9 as stated: the timeout is twelve seconds, a status query takes four
  seconds, and the volume becomes available in second 18. The run starts at second 0 and
  the wait at second 1. The first query is answered at second 5, and the timer of the wait
  is set for second 17. The queries at the ticks of the seconds 10 and 15 are answered with
  the state provisioning; the timer fires while the second of them is on its way. The
  loop evaluates the condition once more, at second 19, and this query reports the state
  available: the wait returns with success at second 23, and \<open>Provision\<close> returns a
  persistent volume, although the volume was still provisioning in second 17, sixteen
  seconds after the wait began.
\<close>

theorem Provision_available_after_timeout:
  "block_timeout (slowBlock (availableAfter 18)) = 12 \<and>
   now (waiting (snd (CreateVolume (block_client (slowBlock (availableAfter 18))) (Some 100)
          (demoDetails 51200) demoWorld))) = 1 \<and>
   getVolume_reply (block_client (slowBlock (availableAfter 18))) (demoWorld\<lparr>now := 17\<rparr>)
     ''ocid1.volume.oc1.phx.v'' = (4, Inr VolumeLifecycleStateProvisioning) \<and>
   map_option (now \<circ> snd)
     (waitForVolumeAvailable (slowBlock (availableAfter 18)) (Some 100) ''ocid1.volume.oc1.phx.v''
        12 (waiting (snd (CreateVolume (block_client (slowBlock (availableAfter 18))) (Some 100)
          (demoDetails 51200) demoWorld)))) = Some 23 \<and>
   map_option fst
     (Provision demoPkg (slowBlock (availableAfter 18))
        (demoOptions [ReadWriteOnce] 42949672960) demoAd demoWorld)
     = Some (Inr (Provision_pv demoPkg (demoOptions [ReadWriteOnce] 42949672960) demoAd
                    53687091200 demoVolume ''ext4'' ''phx'')) \<and>
   map_option (calls \<circ> snd)
     (Provision demoPkg (slowBlock (availableAfter 18))
        (demoOptions [ReadWriteOnce] 42949672960) demoAd demoWorld)
     = Some [EvCreateVolume (demoDetails 51200) (Inr demoVolume),
             EvGetVolume ''ocid1.volume.oc1.phx.v'' (Inr VolumeLifecycleStateProvisioning),
             EvGetVolume ''ocid1.volume.oc1.phx.v'' (Inr VolumeLifecycleStateProvisioning),
             EvGetVolume ''ocid1.volume.oc1.phx.v'' (Inr VolumeLifecycleStateProvisioning),
             EvGetVolume ''ocid1.volume.oc1.phx.v'' (Inr VolumeLifecycleStateAvailable),
             EvMetadataGet (Inr \<lparr>Region = ''phx''\<rparr>)]"
  by (simp add: eval_defs more_defs slowClient_def slowBlock_def)

subsection \<open>C10: the rounding flag of the request\<close>

text \<open>
  Claim C10. \<open>volumeRoundingEnabled\<close> is false only when the parameters hold the key
  \<open>volumeRoundingUpEnabled\<close> with a value that \<open>ParseBool\<close> reads as false. Without the key,
  with a value that does not parse, and with a value that parses to true, it is true.
\<close>

theorem volumeRoundingEnabled_false_iff:
  "(volumeRoundingEnabled param = False \<longleftrightarrow>
      (\<exists>s. param volumeRoundingUpEnabled = Some s \<and> ParseBool s = Inr False)) \<and>
   (param volumeRoundingUpEnabled = None \<longrightarrow> volumeRoundingEnabled param) \<and>
   (\<forall>s e. param volumeRoundingUpEnabled = Some s \<and> ParseBool s = Inl e
      \<longrightarrow> volumeRoundingEnabled param) \<and>
   (\<forall>s. param volumeRoundingUpEnabled = Some s \<and> ParseBool s = Inr True
      \<longrightarrow> volumeRoundingEnabled param)"
  by (auto simp: volumeRoundingEnabled_def split: option.splits sum.splits)

text \<open>
  Witness for C10: the values \<open>false\<close>, no value, \<open>no\<close> (which does not parse) and \<open>TRUE\<close>.
\<close>

theorem volumeRoundingEnabled_false_iff_witness:
  "\<not> volumeRoundingEnabled [''volumeRoundingUpEnabled'' \<mapsto> ''false''] \<and>
   volumeRoundingEnabled Map.empty \<and>
   volumeRoundingEnabled [''volumeRoundingUpEnabled'' \<mapsto> ''no''] \<and>
   volumeRoundingEnabled [''volumeRoundingUpEnabled'' \<mapsto> ''TRUE'']"
  using volumeRoundingEnabled_false_iff [of "[''volumeRoundingUpEnabled'' \<mapsto> ''false'']"]
    volumeRoundingEnabled_false_iff [of Map.empty] volumeRoundingEnabled_false_iff [of "[''volumeRoundingUpEnabled'' \<mapsto> ''no'']"]
    volumeRoundingEnabled_false_iff [of "[''volumeRoundingUpEnabled'' \<mapsto> ''TRUE'']"]
  by (simp add: volumeRoundingUpEnabled_def ParseBool_def)

end
